theory Spec2Isabelle
  imports Complex_Main "HOL-Library.Multiset" "HOL-Library.Sublist"
begin

section \<open>JavaScript values\<close>

text \<open>
  The service registers schools and lists them by distance (\<open>src/index.js\<close>, and the
  same two handlers once more in \<open>src/controllers/schoolController.js\<close>).  The request
  body is what \<open>bodyParser.json()\<close> hands to the handler, a query parameter is what the
  query-string parser hands over: in both cases a JSON-like value, or \<open>undefined\<close> when
  the key is absent.

  A Number is \<open>NaN\<close>, an infinity or a finite number.  Finite numbers are exact reals:
  the rounding of IEEE doubles and the sign of zero are left out, so every statement below
  about a computed number is a statement about exact arithmetic.  A string is a list of
  characters with codes below 256.  An object is the list of its own properties; of two
  entries with one key the first is the property.
\<close>

datatype jsnum = NaN | NegInfinity | Fin real | PosInfinity

datatype jsval =
    JUndefined
  | JNull
  | JBool bool
  | JNumber jsnum
  | JString string
  | JArray "jsval list"
  | JObject "(string \<times> jsval) list"

datatype js_error = TypeError string | DbError string

fun message :: "js_error \<Rightarrow> string" where
  "message (TypeError m) = m"
| "message (DbError m) = m"

text \<open>\<open>!v\<close> is \<open>\<not> truthy v\<close>: the falsy values are \<open>undefined\<close>, \<open>null\<close>, \<open>false\<close>,
  \<open>0\<close>, \<open>NaN\<close> and the empty string.\<close>

fun truthy :: "jsval \<Rightarrow> bool" where
  "truthy JUndefined = False"
| "truthy JNull = False"
| "truthy (JBool b) = b"
| "truthy (JNumber n) = (n \<noteq> NaN \<and> n \<noteq> Fin 0)"
| "truthy (JString s) = (s \<noteq> [])"
| "truthy (JArray xs) = True"
| "truthy (JObject kvs) = True"

text \<open>\<open>typeof v !== "string"\<close> is \<open>\<not> is_string v\<close>.\<close>

fun is_string :: "jsval \<Rightarrow> bool" where
  "is_string (JString s) = True"
| "is_string v = False"

text \<open>Reading one of the properties \<open>name\<close>, \<open>address\<close>, \<open>latitude\<close>, \<open>longitude\<close>
  (none of which is inherited from a prototype): a \<open>TypeError\<close> on \<open>undefined\<close> and
  \<open>null\<close>, the own property of an object, \<open>undefined\<close> everywhere else.\<close>

fun get_prop :: "jsval \<Rightarrow> string \<Rightarrow> js_error + jsval" where
  "get_prop JUndefined k = Inl (TypeError ''Cannot read properties of undefined'')"
| "get_prop JNull k = Inl (TypeError ''Cannot read properties of null'')"
| "get_prop (JObject kvs) k = Inr (case map_of kvs k of None \<Rightarrow> JUndefined | Some v \<Rightarrow> v)"
| "get_prop v k = Inr JUndefined"

subsection \<open>Strings: \<open>trim\<close> and the text of a number\<close>

text \<open>The white space and line terminators of ECMAScript among the code units below 256.\<close>

definition is_ws :: "char \<Rightarrow> bool" where
  "is_ws c = (of_char c \<in> {9, 10, 11, 12, 13, 32, 160 :: nat})"

definition trim :: "string \<Rightarrow> string" where
  "trim s = rev (dropWhile is_ws (rev (dropWhile is_ws s)))"

definition is_digit :: "char \<Rightarrow> bool" where
  "is_digit c = (48 \<le> (of_char c :: nat) \<and> (of_char c :: nat) \<le> 57)"

definition digits_value :: "string \<Rightarrow> nat" where
  "digits_value ds = foldl (\<lambda>acc c. 10 * acc + (of_char c - 48)) 0 ds"

text \<open>An optional sign in front of the rest of the text.\<close>

fun take_sign :: "string \<Rightarrow> bool \<times> string" where
  "take_sign [] = (False, [])"
| "take_sign (c # r) =
     (if c = CHR ''-'' then (True, r) else if c = CHR ''+'' then (False, r) else (False, c # r))"

text \<open>The exponent part \<open>e\<close>/\<open>E\<close>, optional sign, digits; it counts only when it has a digit.\<close>

fun exponent_part :: "string \<Rightarrow> int" where
  "exponent_part [] = 0"
| "exponent_part (c # r) =
     (if c = CHR ''e'' \<or> c = CHR ''E'' then
        (case take_sign r of (neg, r') \<Rightarrow>
           let ds = takeWhile is_digit r' in
           if ds = [] then 0
           else if neg then - int (digits_value ds) else int (digits_value ds))
      else 0)"

text \<open>\<open>parseFloat\<close> on a string: skip leading white space, then read the longest prefix
  that is a decimal literal (sign, \<open>Infinity\<close> or digits with an optional fraction and
  exponent); \<open>NaN\<close> when there is none.  Whatever follows the literal is ignored.  The
  result here is the exact value of the literal, where the program has the double nearest
  to it.\<close>

definition parseFloat_str :: "string \<Rightarrow> jsnum" where
  "parseFloat_str s =
     (case take_sign (dropWhile is_ws s) of (neg, u) \<Rightarrow>
        if prefix ''Infinity'' u then (if neg then NegInfinity else PosInfinity)
        else
          let ip = takeWhile is_digit u;
              r1 = dropWhile is_digit u;
              fp = (case r1 of [] \<Rightarrow> [] | c # r \<Rightarrow> if c = CHR ''.'' then takeWhile is_digit r else []);
              r2 = (case r1 of [] \<Rightarrow> [] | c # r \<Rightarrow> if c = CHR ''.'' then dropWhile is_digit r else r1)
          in if ip = [] \<and> fp = [] then NaN
             else
               let m = real (digits_value (ip @ fp)) / 10 ^ length fp;
                   e = exponent_part r2;
                   v = (if 0 \<le> e then m * 10 ^ nat e else m / 10 ^ nat (- e))
               in Fin (if neg then - v else v))"

text \<open>\<open>parseFloat(v)\<close> first converts \<open>v\<close> to a string.  That conversion throws a
  \<open>TypeError\<close> on an object whose own property \<open>toString\<close> hides the inherited method
  (a JSON value is never callable), and on an array with such an element, since
  \<open>join\<close> converts every element other than \<open>null\<close> and \<open>undefined\<close>.\<close>

fun toString_throws :: "jsval \<Rightarrow> bool" where
  "toString_throws (JObject kvs) = (''toString'' \<in> set (map fst kvs))"
| "toString_throws (JArray xs) = list_ex toString_throws xs"
| "toString_throws v = False"

text \<open>The number read from the text of a value.  The text of a number reads back as that
  number; \<open>undefined\<close>, \<open>null\<close>, \<open>true\<close>, \<open>false\<close> and \<open>[object Object]\<close> have no
  numeric prefix; the text of an array is that of its elements joined by commas, with
  \<open>null\<close> and \<open>undefined\<close> as the empty text, and a comma ends every literal, so only
  the first element counts.\<close>

fun parseFloat_text :: "jsval \<Rightarrow> jsnum" where
  "parseFloat_text (JNumber n) = n"
| "parseFloat_text (JString s) = parseFloat_str s"
| "parseFloat_text (JArray (JArray ys # xs)) = parseFloat_text (JArray ys)"
| "parseFloat_text (JArray (JNumber n # xs)) = n"
| "parseFloat_text (JArray (JString s # xs)) = parseFloat_str s"
| "parseFloat_text v = NaN"

definition parseFloat :: "jsval \<Rightarrow> js_error + jsnum" where
  "parseFloat v =
     (if toString_throws v then Inl (TypeError ''Cannot convert object to primitive value'')
      else Inr (parseFloat_text v))"

text \<open>\<open>isNaN\<close> and the comparisons \<open><\<close>, \<open>>\<close> on numbers: every comparison with
  \<open>NaN\<close> is false.\<close>

fun isNaN :: "jsnum \<Rightarrow> bool" where
  "isNaN NaN = True"
| "isNaN n = False"

fun js_lt :: "jsnum \<Rightarrow> jsnum \<Rightarrow> bool" where
  "js_lt NaN b = False"
| "js_lt a NaN = False"
| "js_lt (Fin x) (Fin y) = (x < y)"
| "js_lt NegInfinity b = (b \<noteq> NegInfinity)"
| "js_lt a PosInfinity = (a \<noteq> PosInfinity)"
| "js_lt a b = False"

definition js_gt :: "jsnum \<Rightarrow> jsnum \<Rightarrow> bool" where
  "js_gt a b = js_lt b a"

section \<open>The validator\<close>

text \<open>A computation that may throw: \<open>Inl\<close> is the exception.\<close>

definition bind_err :: "js_error + 'a \<Rightarrow> ('a \<Rightarrow> js_error + 'b) \<Rightarrow> js_error + 'b" where
  "bind_err m f = (case m of Inl e \<Rightarrow> Inl e | Inr x \<Rightarrow> f x)"

text \<open>\<open>a || b\<close> evaluates \<open>b\<close> only when \<open>a\<close> is false.\<close>

definition or_else :: "bool \<Rightarrow> js_error + bool \<Rightarrow> js_error + bool" where
  "or_else a b = (if a then Inr True else b)"

text \<open>The method call \<open>v.trim()\<close>: strings have the method, nothing else has.\<close>

fun call_trim :: "jsval \<Rightarrow> js_error + string" where
  "call_trim (JString s) = Inr (trim s)"
| "call_trim JUndefined = Inl (TypeError ''Cannot read properties of undefined'')"
| "call_trim JNull = Inl (TypeError ''Cannot read properties of null'')"
| "call_trim v = Inl (TypeError ''trim is not a function'')"

text \<open>\<open>validateSchoolInput\<close> of \<open>src/index.js\<close>: four \<open>if\<close> statements in a row, each
  of which may push one message onto \<open>errors\<close>; the model passes the array from one
  statement to the next.\<close>

definition validateSchoolInput :: "jsval \<Rightarrow> js_error + string list" where
  "validateSchoolInput data =
     (let errors = [] in
      bind_err
        (bind_err (get_prop data ''name'') (\<lambda>d_name.
         bind_err (or_else (\<not> truthy d_name) (or_else (\<not> is_string d_name)
                     (bind_err (call_trim d_name) (\<lambda>t. Inr (t = []))))) (\<lambda>c.
         Inr (if c then errors @ [''Name is required and must be a non-empty string'']
              else errors)))) (\<lambda>errors.
      bind_err
        (bind_err (get_prop data ''address'') (\<lambda>d_address.
         bind_err (or_else (\<not> truthy d_address) (or_else (\<not> is_string d_address)
                     (bind_err (call_trim d_address) (\<lambda>t. Inr (t = []))))) (\<lambda>c.
         Inr (if c then errors @ [''Address is required and must be a non-empty string'']
              else errors)))) (\<lambda>errors.
      bind_err
        (bind_err (get_prop data ''latitude'') (\<lambda>d_latitude.
         bind_err (or_else (\<not> truthy d_latitude)
                     (bind_err (parseFloat d_latitude) (\<lambda>p. Inr (isNaN p)))) (\<lambda>c.
         if c then Inr (errors @ [''Latitude is required and must be a valid number''])
         else bind_err (parseFloat d_latitude) (\<lambda>lat.
           if js_lt lat (Fin (- 90)) \<or> js_gt lat (Fin 90)
           then Inr (errors @ [''Latitude must be between -90 and 90''])
           else Inr errors)))) (\<lambda>errors.
      bind_err
        (bind_err (get_prop data ''longitude'') (\<lambda>d_longitude.
         bind_err (or_else (\<not> truthy d_longitude)
                     (bind_err (parseFloat d_longitude) (\<lambda>p. Inr (isNaN p)))) (\<lambda>c.
         if c then Inr (errors @ [''Longitude is required and must be a valid number''])
         else bind_err (parseFloat d_longitude) (\<lambda>lon.
           if js_lt lon (Fin (- 180)) \<or> js_gt lon (Fin 180)
           then Inr (errors @ [''Longitude must be between -180 and 180''])
           else Inr errors)))) (\<lambda>errors.
      Inr errors)))))"

text \<open>\<open>validateSchoolInput\<close> of \<open>src/controllers/schoolController.js\<close>.\<close>

definition ctl_validateSchoolInput :: "jsval \<Rightarrow> js_error + string list" where
  "ctl_validateSchoolInput data =
     (let errors = [] in
      bind_err
        (bind_err (get_prop data ''name'') (\<lambda>d_name.
         bind_err (or_else (\<not> truthy d_name) (or_else (\<not> is_string d_name)
                     (bind_err (call_trim d_name) (\<lambda>t. Inr (t = []))))) (\<lambda>c.
         Inr (if c then errors @ [''Name is required and must be a non-empty string'']
              else errors)))) (\<lambda>errors.
      bind_err
        (bind_err (get_prop data ''address'') (\<lambda>d_address.
         bind_err (or_else (\<not> truthy d_address) (or_else (\<not> is_string d_address)
                     (bind_err (call_trim d_address) (\<lambda>t. Inr (t = []))))) (\<lambda>c.
         Inr (if c then errors @ [''Address is required and must be a non-empty string'']
              else errors)))) (\<lambda>errors.
      bind_err
        (bind_err (get_prop data ''latitude'') (\<lambda>d_latitude.
         bind_err (or_else (\<not> truthy d_latitude)
                     (bind_err (parseFloat d_latitude) (\<lambda>p. Inr (isNaN p)))) (\<lambda>c.
         if c then Inr (errors @ [''Latitude is required and must be a valid number''])
         else bind_err (parseFloat d_latitude) (\<lambda>lat.
           if js_lt lat (Fin (- 90)) \<or> js_gt lat (Fin 90)
           then Inr (errors @ [''Latitude must be between -90 and 90''])
           else Inr errors)))) (\<lambda>errors.
      bind_err
        (bind_err (get_prop data ''longitude'') (\<lambda>d_longitude.
         bind_err (or_else (\<not> truthy d_longitude)
                     (bind_err (parseFloat d_longitude) (\<lambda>p. Inr (isNaN p)))) (\<lambda>c.
         if c then Inr (errors @ [''Longitude is required and must be a valid number''])
         else bind_err (parseFloat d_longitude) (\<lambda>lon.
           if js_lt lon (Fin (- 180)) \<or> js_gt lon (Fin 180)
           then Inr (errors @ [''Longitude must be between -180 and 180''])
           else Inr errors)))) (\<lambda>errors.
      Inr errors)))))"

section \<open>Arithmetic on numbers\<close>

text \<open>The operators and \<open>Math\<close> functions the distance calculation uses, on exact reals
  extended by \<open>NaN\<close> and the infinities.  A zero divisor is taken as \<open>+0\<close>.\<close>

fun sign_of :: "jsnum \<Rightarrow> real" where
  "sign_of (Fin x) = sgn x"
| "sign_of PosInfinity = 1"
| "sign_of NegInfinity = - 1"
| "sign_of NaN = 0"

definition infinity_of :: "real \<Rightarrow> jsnum" where
  "infinity_of s = (if 0 < s then PosInfinity else if s < 0 then NegInfinity else NaN)"

fun js_add :: "jsnum \<Rightarrow> jsnum \<Rightarrow> jsnum" where
  "js_add NaN b = NaN"
| "js_add a NaN = NaN"
| "js_add (Fin x) (Fin y) = Fin (x + y)"
| "js_add (Fin x) b = b"
| "js_add a (Fin y) = a"
| "js_add a b = (if a = b then a else NaN)"

fun js_neg :: "jsnum \<Rightarrow> jsnum" where
  "js_neg NaN = NaN"
| "js_neg (Fin x) = Fin (- x)"
| "js_neg PosInfinity = NegInfinity"
| "js_neg NegInfinity = PosInfinity"

definition js_sub :: "jsnum \<Rightarrow> jsnum \<Rightarrow> jsnum" where
  "js_sub a b = js_add a (js_neg b)"

fun js_mul :: "jsnum \<Rightarrow> jsnum \<Rightarrow> jsnum" where
  "js_mul NaN b = NaN"
| "js_mul a NaN = NaN"
| "js_mul (Fin x) (Fin y) = Fin (x * y)"
| "js_mul a b = infinity_of (sign_of a * sign_of b)"

fun js_div :: "jsnum \<Rightarrow> jsnum \<Rightarrow> jsnum" where
  "js_div NaN b = NaN"
| "js_div a NaN = NaN"
| "js_div (Fin x) (Fin y) = (if y = 0 then infinity_of (sgn x) else Fin (x / y))"
| "js_div (Fin x) b = Fin 0"
| "js_div a (Fin y) = (if y = 0 then a else infinity_of (sign_of a * sgn y))"
| "js_div a b = NaN"

definition Math_PI :: jsnum where
  "Math_PI = Fin pi"

fun Math_sin :: "jsnum \<Rightarrow> jsnum" where
  "Math_sin (Fin x) = Fin (sin x)"
| "Math_sin a = NaN"

fun Math_cos :: "jsnum \<Rightarrow> jsnum" where
  "Math_cos (Fin x) = Fin (cos x)"
| "Math_cos a = NaN"

fun Math_sqrt :: "jsnum \<Rightarrow> jsnum" where
  "Math_sqrt (Fin x) = (if x < 0 then NaN else Fin (sqrt x))"
| "Math_sqrt PosInfinity = PosInfinity"
| "Math_sqrt a = NaN"

text \<open>\<open>Math.atan2(y, x)\<close>: the angle of the point \<open>(x, y)\<close>, in \<open>[-\<pi>, \<pi>]\<close>.\<close>

fun Math_atan2 :: "jsnum \<Rightarrow> jsnum \<Rightarrow> jsnum" where
  "Math_atan2 NaN x = NaN"
| "Math_atan2 y NaN = NaN"
| "Math_atan2 (Fin y) (Fin x) =
     Fin (if 0 < x then arctan (y / x)
          else if x < 0 then (if 0 \<le> y then arctan (y / x) + pi else arctan (y / x) - pi)
          else if 0 < y then pi / 2 else if y < 0 then - (pi / 2) else 0)"
| "Math_atan2 (Fin y) PosInfinity = Fin 0"
| "Math_atan2 (Fin y) NegInfinity = Fin (if 0 \<le> y then pi else - pi)"
| "Math_atan2 PosInfinity (Fin x) = Fin (pi / 2)"
| "Math_atan2 NegInfinity (Fin x) = Fin (- (pi / 2))"
| "Math_atan2 PosInfinity PosInfinity = Fin (pi / 4)"
| "Math_atan2 PosInfinity NegInfinity = Fin (3 * pi / 4)"
| "Math_atan2 NegInfinity PosInfinity = Fin (- (pi / 4))"
| "Math_atan2 NegInfinity NegInfinity = Fin (- (3 * pi / 4))"

section \<open>The distance calculation\<close>

text \<open>\<open>calculateDistance\<close> of \<open>src/index.js\<close>: the haversine formula, line by line.
  In exact arithmetic \<open>a\<close> lies between 0 and 1.  In the doubles of the program the rounded
  sum can come out above 1 for two points that are nearly antipodal; \<open>Math.sqrt(1 - a)\<close> is
  then \<open>NaN\<close>, and so is the distance.  The definition does not show that, so nothing is
  stated below about the size of a computed distance.\<close>

definition calculateDistance :: "jsnum \<Rightarrow> jsnum \<Rightarrow> jsnum \<Rightarrow> jsnum \<Rightarrow> jsnum" where
  "calculateDistance lat1 lon1 lat2 lon2 =
     (let R = Fin 6371;
          dLat = js_div (js_mul (js_sub lat2 lat1) Math_PI) (Fin 180);
          dLon = js_div (js_mul (js_sub lon2 lon1) Math_PI) (Fin 180);
          a = js_add
                (js_mul (Math_sin (js_div dLat (Fin 2))) (Math_sin (js_div dLat (Fin 2))))
                (js_mul (js_mul (js_mul
                   (Math_cos (js_div (js_mul lat1 Math_PI) (Fin 180)))
                   (Math_cos (js_div (js_mul lat2 Math_PI) (Fin 180))))
                   (Math_sin (js_div dLon (Fin 2))))
                   (Math_sin (js_div dLon (Fin 2))));
          c = js_mul (Fin 2) (Math_atan2 (Math_sqrt a) (Math_sqrt (js_sub (Fin 1) a)));
          distance = js_mul R c
      in distance)"

text \<open>\<open>calculateDistance\<close> of \<open>src/controllers/schoolController.js\<close>.\<close>

definition ctl_calculateDistance :: "jsnum \<Rightarrow> jsnum \<Rightarrow> jsnum \<Rightarrow> jsnum \<Rightarrow> jsnum" where
  "ctl_calculateDistance lat1 lon1 lat2 lon2 =
     (let R = Fin 6371;
          dLat = js_div (js_mul (js_sub lat2 lat1) Math_PI) (Fin 180);
          dLon = js_div (js_mul (js_sub lon2 lon1) Math_PI) (Fin 180);
          a = js_add
                (js_mul (Math_sin (js_div dLat (Fin 2))) (Math_sin (js_div dLat (Fin 2))))
                (js_mul (js_mul (js_mul
                   (Math_cos (js_div (js_mul lat1 Math_PI) (Fin 180)))
                   (Math_cos (js_div (js_mul lat2 Math_PI) (Fin 180))))
                   (Math_sin (js_div dLon (Fin 2))))
                   (Math_sin (js_div dLon (Fin 2))));
          c = js_mul (Fin 2) (Math_atan2 (Math_sqrt a) (Math_sqrt (js_sub (Fin 1) a)))
      in js_mul R c)"

text \<open>\<open>parseFloat(x.toFixed(2))\<close>.  For a finite \<open>x\<close> below \<open>10^21\<close> in size,
  \<open>toFixed(2)\<close> writes the sign and the integer \<open>n\<close> nearest to \<open>|x| * 100\<close> (the larger
  one of two) with two decimals, and \<open>parseFloat\<close> reads \<open>n / 100\<close> back; every other
  number is written as its own text and is read back unchanged.\<close>

fun toFixed2_parsed :: "jsnum \<Rightarrow> jsnum" where
  "toFixed2_parsed (Fin x) =
     (if 10 ^ 21 \<le> \<bar>x\<bar> then Fin x
      else if x < 0 then Fin (- (real_of_int \<lfloor>(- x) * 100 + 1 / 2\<rfloor> / 100))
      else Fin (real_of_int \<lfloor>x * 100 + 1 / 2\<rfloor> / 100))"
| "toFixed2_parsed a = a"

section \<open>\<open>Array.prototype.sort\<close>\<close>

text \<open>\<open>sort(comparefn)\<close> is stable, as ECMAScript requires since 2019: an element moves
  behind another one only when the comparator says so with a result above zero; zero
  leaves the two in their order.  This is the order of the program whenever no result of
  the comparator is \<open>NaN\<close>.  With a result \<open>NaN\<close> the comparator is not consistent and the
  order is the engine's own choice; the definition then treats \<open>NaN\<close> as zero and need not
  give the order of V8.\<close>

fun sort_insert :: "('a \<Rightarrow> 'a \<Rightarrow> jsnum) \<Rightarrow> 'a \<Rightarrow> 'a list \<Rightarrow> 'a list" where
  "sort_insert cmp x [] = [x]"
| "sort_insert cmp x (y # ys) =
     (if js_gt (cmp x y) (Fin 0) then y # sort_insert cmp x ys else x # y # ys)"

definition array_sort :: "('a \<Rightarrow> 'a \<Rightarrow> jsnum) \<Rightarrow> 'a list \<Rightarrow> 'a list" where
  "array_sort cmp xs = foldr (sort_insert cmp) xs []"

section \<open>The repository\<close>

text \<open>A row of the table \<open>schools\<close>: \<open>id INT AUTO_INCREMENT\<close>, two texts and two
  \<open>FLOAT NOT NULL\<close> columns, which hold finite numbers.  The columns store what the
  statement passes: the limits of \<open>VARCHAR(255)\<close> and the precision of \<open>FLOAT\<close> belong
  to the datastore.\<close>

record school =
  id' :: nat
  name :: string
  address :: string
  latitude :: real
  longitude :: real

record school_with_distance = school +
  distance :: jsnum

text \<open>What a handler does with the pool, in order.\<close>

datatype db_call =
    GetConnection
  | InsertSchool string string jsnum jsnum
  | SelectSchools
  | Release

record db =
  rows :: "school list"
  next_id :: nat
  calls :: "db_call list"

text \<open>What the datastore does with the request at hand: it serves it, or acquiring the
  connection fails, or the statement fails; a failure comes with the message of its
  error.  A handler acquires one connection and runs one statement.\<close>

datatype db_outcome = Serves | ConnectionFails string | QueryFails string

text \<open>A step of a handler: it may throw, and it may change the datastore.\<close>

type_synonym 'a io = "db \<Rightarrow> (js_error + 'a) \<times> db"

definition io_return :: "'a \<Rightarrow> 'a io" where
  "io_return x = (\<lambda>s. (Inr x, s))"

definition io_lift :: "js_error + 'a \<Rightarrow> 'a io" where
  "io_lift m = (\<lambda>s. (m, s))"

definition io_bind :: "'a io \<Rightarrow> ('a \<Rightarrow> 'b io) \<Rightarrow> 'b io" where
  "io_bind m f = (\<lambda>s. case m s of (Inl e, s') \<Rightarrow> (Inl e, s') | (Inr x, s') \<Rightarrow> f x s')"

text \<open>Modelled from the spec: the pool (created in \<open>src/index.js\<close>, taken from
  \<open>config/db.js\<close> by the controller) gives a connection of the datastore or fails.\<close>

definition pool_getConnection :: "db_outcome \<Rightarrow> unit io" where
  "pool_getConnection oc = (\<lambda>s.
     let s' = s\<lparr>calls := calls s @ [GetConnection]\<rparr> in
     case oc of ConnectionFails m \<Rightarrow> (Inl (DbError m), s') | _ \<Rightarrow> (Inr (), s'))"

text \<open>Modelled from the spec: the datastore on
  \<open>INSERT INTO schools (name, address, latitude, longitude) VALUES (?, ?, ?, ?)\<close>.
  The new row gets the next identifier, which is the \<open>insertId\<close> of the result.  A
  failing statement inserts nothing; \<open>NaN\<close> and the infinities are no \<open>FLOAT\<close>.\<close>

definition query_insert :: "db_outcome \<Rightarrow> string \<Rightarrow> string \<Rightarrow> jsnum \<Rightarrow> jsnum \<Rightarrow> nat io" where
  "query_insert oc p1 p2 p3 p4 = (\<lambda>s.
     let s' = s\<lparr>calls := calls s @ [InsertSchool p1 p2 p3 p4]\<rparr> in
     case oc of
       QueryFails m \<Rightarrow> (Inl (DbError m), s')
     | _ \<Rightarrow>
       (case (p3, p4) of
          (Fin x, Fin y) \<Rightarrow>
            (Inr (next_id s),
             s'\<lparr>rows := rows s @ [\<lparr>id' = next_id s, name = p1, address = p2,
                                    latitude = x, longitude = y\<rparr>],
                next_id := next_id s + 1\<rparr>)
        | _ \<Rightarrow> (Inl (DbError ''Incorrect FLOAT value''), s')))"

text \<open>Modelled from the spec: the datastore on \<open>SELECT * FROM schools\<close> gives all
  rows, in the order they were inserted.\<close>

definition query_select :: "db_outcome \<Rightarrow> school list io" where
  "query_select oc = (\<lambda>s.
     let s' = s\<lparr>calls := calls s @ [SelectSchools]\<rparr> in
     case oc of QueryFails m \<Rightarrow> (Inl (DbError m), s') | _ \<Rightarrow> (Inr (rows s), s'))"

text \<open>Modelled from the spec: \<open>connection.release()\<close> gives the connection back.\<close>

definition connection_release :: "unit io" where
  "connection_release = (\<lambda>s. (Inr (), s\<lparr>calls := calls s @ [Release]\<rparr>))"

text \<open>The table after \<open>CREATE TABLE\<close>, before any request.\<close>

definition initial_db :: db where
  "initial_db = \<lparr>rows = [], next_id = 1, calls = []\<rparr>"

section \<open>The request handlers\<close>

text \<open>The JSON bodies the handlers send: \<open>{success: true, message, schoolId}\<close>,
  \<open>{success: false, errors}\<close>, \<open>{success: false, message}\<close> with the key \<open>error\<close>
  when it is defined, and \<open>{success: true, count, schools}\<close>.\<close>

datatype body =
    Added string nat
  | Errors "string list"
  | Failure string "string option"
  | Listing nat "school_with_distance list"

fun success :: "body \<Rightarrow> bool" where
  "success (Added m i) = True"
| "success (Errors es) = False"
| "success (Failure m d) = False"
| "success (Listing n xs) = True"

record response =
  status :: nat
  payload :: body

text \<open>The callback of \<open>schools.map\<close> in \<open>src/index.js\<close>: the row with one more
  field, \<open>distance\<close>, the distance from the user's point rounded by \<open>toFixed(2)\<close>.\<close>

definition with_distance :: "jsnum \<Rightarrow> jsnum \<Rightarrow> school \<Rightarrow> school_with_distance" where
  "with_distance userLat userLon school =
     (let distance = calculateDistance userLat userLon
                       (Fin (latitude school)) (Fin (longitude school))
      in school.extend school (school_with_distance.fields (toFixed2_parsed distance)))"

text \<open>The callback of \<open>schools.map\<close> in \<open>src/controllers/schoolController.js\<close>.\<close>

definition ctl_with_distance :: "jsnum \<Rightarrow> jsnum \<Rightarrow> school \<Rightarrow> school_with_distance" where
  "ctl_with_distance userLat userLon school =
     school.extend school (school_with_distance.fields
       (toFixed2_parsed (ctl_calculateDistance userLat userLon
          (Fin (latitude school)) (Fin (longitude school)))))"

text \<open>\<open>POST /addSchool\<close> of \<open>src/index.js\<close>, for the value \<open>node_env\<close> of
  \<open>process.env.NODE_ENV\<close> and the request body \<open>schoolData\<close>: the \<open>try\<close> block, then
  the \<open>catch\<close> block.\<close>

definition addSchool :: "string option \<Rightarrow> db_outcome \<Rightarrow> jsval \<Rightarrow> db \<Rightarrow> response \<times> db" where
  "addSchool node_env oc schoolData s =
     (case
        io_bind (io_lift (validateSchoolInput schoolData)) (\<lambda>validationErrors.
          if length validationErrors > 0
          then io_return \<lparr>status = 400, payload = Errors validationErrors\<rparr>
          else
            io_bind (pool_getConnection oc) (\<lambda>_.
            io_bind (io_lift (bind_err (get_prop schoolData ''name'') call_trim)) (\<lambda>p1.
            io_bind (io_lift (bind_err (get_prop schoolData ''address'') call_trim)) (\<lambda>p2.
            io_bind (io_lift (bind_err (get_prop schoolData ''latitude'') parseFloat)) (\<lambda>p3.
            io_bind (io_lift (bind_err (get_prop schoolData ''longitude'') parseFloat)) (\<lambda>p4.
            io_bind (query_insert oc p1 p2 p3 p4) (\<lambda>insertId.
            io_bind connection_release (\<lambda>_.
            io_return \<lparr>status = 201,
                       payload = Added ''School added successfully'' insertId\<rparr>)))))))) s
      of
        (Inr res, s') \<Rightarrow> (res, s')
      | (Inl error, s') \<Rightarrow>
          (\<lparr>status = 500,
            payload = Failure ''Internal server error''
              (if node_env = Some ''development'' then Some (message error) else None)\<rparr>, s'))"

text \<open>\<open>GET /listSchools\<close> of \<open>src/index.js\<close>, for the query parameters \<open>latitude\<close> and
  \<open>longitude\<close>.  A response sent without \<open>res.status\<close> has status 200.\<close>

definition listSchools :: "string option \<Rightarrow> db_outcome \<Rightarrow> jsval \<Rightarrow> jsval \<Rightarrow> db \<Rightarrow> response \<times> db" where
  "listSchools node_env oc q_latitude q_longitude s =
     (case
        io_bind (io_lift (parseFloat q_latitude)) (\<lambda>userLat.
        io_bind (io_lift (parseFloat q_longitude)) (\<lambda>userLon.
          if isNaN userLat \<or> isNaN userLon \<or>
             js_lt userLat (Fin (- 90)) \<or> js_gt userLat (Fin 90) \<or>
             js_lt userLon (Fin (- 180)) \<or> js_gt userLon (Fin 180)
          then io_return \<lparr>status = 400,
                          payload = Failure ''Invalid latitude or longitude provided'' None\<rparr>
          else
            io_bind (pool_getConnection oc) (\<lambda>_.
            io_bind (query_select oc) (\<lambda>schools.
            io_bind connection_release (\<lambda>_.
              let schoolsWithDistance = map (with_distance userLat userLon) schools;
                  sorted_schools = array_sort
                    (\<lambda>a b. js_sub (distance a) (distance b)) schoolsWithDistance
              in io_return \<lparr>status = 200,
                            payload = Listing (length sorted_schools) sorted_schools\<rparr>))))) s
      of
        (Inr res, s') \<Rightarrow> (res, s')
      | (Inl error, s') \<Rightarrow>
          (\<lparr>status = 500,
            payload = Failure ''Internal server error''
              (if node_env = Some ''development'' then Some (message error) else None)\<rparr>, s'))"

text \<open>\<open>exports.addSchool\<close> of \<open>src/controllers/schoolController.js\<close>: its \<open>catch\<close>
  block sends the message alone.\<close>

definition ctl_addSchool :: "db_outcome \<Rightarrow> jsval \<Rightarrow> db \<Rightarrow> response \<times> db" where
  "ctl_addSchool oc schoolData s =
     (case
        io_bind (io_lift (ctl_validateSchoolInput schoolData)) (\<lambda>validationErrors.
          if length validationErrors > 0
          then io_return \<lparr>status = 400, payload = Errors validationErrors\<rparr>
          else
            io_bind (pool_getConnection oc) (\<lambda>_.
            io_bind (io_lift (bind_err (get_prop schoolData ''name'') call_trim)) (\<lambda>p1.
            io_bind (io_lift (bind_err (get_prop schoolData ''address'') call_trim)) (\<lambda>p2.
            io_bind (io_lift (bind_err (get_prop schoolData ''latitude'') parseFloat)) (\<lambda>p3.
            io_bind (io_lift (bind_err (get_prop schoolData ''longitude'') parseFloat)) (\<lambda>p4.
            io_bind (query_insert oc p1 p2 p3 p4) (\<lambda>insertId.
            io_bind connection_release (\<lambda>_.
            io_return \<lparr>status = 201,
                       payload = Added ''School added successfully'' insertId\<rparr>)))))))) s
      of
        (Inr res, s') \<Rightarrow> (res, s')
      | (Inl error, s') \<Rightarrow>
          (\<lparr>status = 500, payload = Failure ''Internal server error'' None\<rparr>, s'))"

text \<open>\<open>exports.listSchools\<close> of \<open>src/controllers/schoolController.js\<close>.\<close>

definition ctl_listSchools :: "db_outcome \<Rightarrow> jsval \<Rightarrow> jsval \<Rightarrow> db \<Rightarrow> response \<times> db" where
  "ctl_listSchools oc q_latitude q_longitude s =
     (case
        io_bind (io_lift (parseFloat q_latitude)) (\<lambda>userLat.
        io_bind (io_lift (parseFloat q_longitude)) (\<lambda>userLon.
          if isNaN userLat \<or> isNaN userLon \<or>
             js_lt userLat (Fin (- 90)) \<or> js_gt userLat (Fin 90) \<or>
             js_lt userLon (Fin (- 180)) \<or> js_gt userLon (Fin 180)
          then io_return \<lparr>status = 400,
                          payload = Failure ''Invalid latitude or longitude provided'' None\<rparr>
          else
            io_bind (pool_getConnection oc) (\<lambda>_.
            io_bind (query_select oc) (\<lambda>schools.
            io_bind connection_release (\<lambda>_.
              let schoolsWithDistance = map (ctl_with_distance userLat userLon) schools;
                  sorted_schools = array_sort
                    (\<lambda>a b. js_sub (distance a) (distance b)) schoolsWithDistance
              in io_return \<lparr>status = 200,
                            payload = Listing (length sorted_schools) sorted_schools\<rparr>))))) s
      of
        (Inr res, s') \<Rightarrow> (res, s')
      | (Inl error, s') \<Rightarrow>
          (\<lparr>status = 500, payload = Failure ''Internal server error'' None\<rparr>, s'))"

text \<open>The datastore states the service can reach from the empty table: every request to
  either entry point, with any input, environment and behaviour of the datastore, is a
  step.\<close>

inductive reachable :: "db \<Rightarrow> bool" where
  start: "reachable initial_db"
| add: "reachable s \<Longrightarrow> reachable (snd (addSchool node_env oc schoolData s))"
| list: "reachable s \<Longrightarrow> reachable (snd (listSchools node_env oc q_latitude q_longitude s))"
| ctl_add: "reachable s \<Longrightarrow> reachable (snd (ctl_addSchool oc schoolData s))"
| ctl_list: "reachable s \<Longrightarrow> reachable (snd (ctl_listSchools oc q_latitude q_longitude s))"

text \<open>A stored row as the record a client would send back: the JSON object of its
  fields.\<close>

definition school_json :: "school \<Rightarrow> jsval" where
  "school_json r =
     JObject [(''id'', JNumber (Fin (real (id' r)))),
              (''name'', JString (name r)), (''address'', JString (address r)),
              (''latitude'', JNumber (Fin (latitude r))),
              (''longitude'', JNumber (Fin (longitude r)))]"


text \<open>The messages one field contributes: a text field for its message \<open>m\<close>, a
  coordinate for its two messages and its bounds.\<close>

definition text_messages :: "jsval \<Rightarrow> string \<Rightarrow> string list" where
  "text_messages v m = (case v of JString n \<Rightarrow> if trim n = [] then [m] else [] | _ \<Rightarrow> [m])"

definition coordinate_messages :: "jsval \<Rightarrow> string \<Rightarrow> string \<Rightarrow> real \<Rightarrow> real \<Rightarrow> string list" where
  "coordinate_messages v required bounds lo hi =
     (if \<not> truthy v \<or> isNaN (parseFloat_text v) then [required]
      else if js_lt (parseFloat_text v) (Fin lo) \<or> js_gt (parseFloat_text v) (Fin hi)
      then [bounds] else [])"

section \<open>Facts about the validator\<close>

lemma ctl_validateSchoolInput_eq: "ctl_validateSchoolInput data = validateSchoolInput data"
  by (simp add: ctl_validateSchoolInput_def validateSchoolInput_def)

lemma in_range_Fin:
  "(\<not> isNaN a \<and> \<not> js_lt a (Fin lo) \<and> \<not> js_gt a (Fin hi)) = (\<exists>x. a = Fin x \<and> lo \<le> x \<and> x \<le> hi)"
  by (cases a) (auto simp: js_gt_def)

lemma trim_Nil: "trim [] = []"
  by (simp add: trim_def)

lemma dropWhile_id: "xs = [] \<or> \<not> P (hd xs) \<Longrightarrow> dropWhile P xs = xs"
  by (cases xs) auto

lemma trim_ends:
  assumes "trim s \<noteq> []"
  shows "\<not> is_ws (hd (trim s))" and "\<not> is_ws (last (trim s))"
proof -
  let ?u = "dropWhile is_ws s"
  let ?v = "dropWhile is_ws (rev ?u)"
  from assms have v: "?v \<noteq> []"
    by (simp add: trim_def)
  have u: "?u \<noteq> []"
  proof
    assume "?u = []"
    then have "?v = []" by (simp only: rev.simps(1) dropWhile.simps(1))
    with v show False by (simp only:)
  qed
  have "\<not> is_ws (hd ?v)"
    using v by (rule hd_dropWhile)
  then show "\<not> is_ws (last (trim s))"
    using v by (simp add: trim_def last_rev)
  obtain ws where ws: "rev ?u = ws @ ?v"
    by (metis takeWhile_dropWhile_id)
  have "hd (trim s) = last ?v"
    using v by (simp add: trim_def hd_rev)
  also have "\<dots> = last (rev ?u)"
    using v by (subst (2) ws) simp
  also have "\<dots> = hd ?u"
    using u by (simp add: last_rev)
  finally show "\<not> is_ws (hd (trim s))"
    using hd_dropWhile [OF u] by simp
qed

lemma trim_idem: "trim (trim s) = trim s"
proof (cases "trim s = []")
  case True
  then show ?thesis by (simp add: trim_Nil)
next
  case False
  note e = trim_ends [OF False]
  have 1: "dropWhile is_ws (trim s) = trim s"
    using e(1) by (intro dropWhile_id) simp
  have 2: "dropWhile is_ws (rev (trim s)) = rev (trim s)"
    using e(2) False by (intro dropWhile_id) (simp add: hd_rev)
  show ?thesis
    by (subst trim_def) (simp add: 1 2)
qed

lemma text_step:
  assumes "get_prop data k = Inr v"
  shows "bind_err (get_prop data k) (\<lambda>v.
           bind_err (or_else (\<not> truthy v) (or_else (\<not> is_string v)
                       (bind_err (call_trim v) (\<lambda>t. Inr (t = []))))) (\<lambda>c.
           Inr (if c then es @ [m] else es)))
         = Inr (es @ text_messages v m)"
  unfolding assms
  by (cases v) (simp_all add: or_else_def bind_err_def trim_Nil text_messages_def)

lemma coordinate_step:
  assumes "get_prop data k = Inr v"
  shows "bind_err (get_prop data k) (\<lambda>v.
           bind_err (or_else (\<not> truthy v) (bind_err (parseFloat v) (\<lambda>p. Inr (isNaN p)))) (\<lambda>c.
           if c then Inr (es @ [required])
           else bind_err (parseFloat v) (\<lambda>n.
             if js_lt n (Fin lo) \<or> js_gt n (Fin hi) then Inr (es @ [bounds]) else Inr es)))
         = (if truthy v \<and> toString_throws v
            then Inl (TypeError ''Cannot convert object to primitive value'')
            else Inr (es @ coordinate_messages v required bounds lo hi))"
  unfolding assms
  by (auto simp: or_else_def bind_err_def parseFloat_def coordinate_messages_def)

lemma get_prop_total:
  assumes "data \<noteq> JUndefined" "data \<noteq> JNull"
  shows "\<exists>v. get_prop data k = Inr v"
  using assms by (cases data) simp_all

lemma validateSchoolInput_null:
  assumes "data = JUndefined \<or> data = JNull"
  shows "\<exists>m. validateSchoolInput data = Inl (TypeError m)"
  using assms by (auto simp: validateSchoolInput_def bind_err_def)

lemma validateSchoolInput_fields:
  assumes "get_prop data ''name'' = Inr dn" "get_prop data ''address'' = Inr da"
    and "get_prop data ''latitude'' = Inr dla" "get_prop data ''longitude'' = Inr dlo"
  shows "validateSchoolInput data =
    (if truthy dla \<and> toString_throws dla \<or> truthy dlo \<and> toString_throws dlo
     then Inl (TypeError ''Cannot convert object to primitive value'')
     else Inr (text_messages dn ''Name is required and must be a non-empty string'' @
               text_messages da ''Address is required and must be a non-empty string'' @
               coordinate_messages dla ''Latitude is required and must be a valid number''
                 ''Latitude must be between -90 and 90'' (- 90) 90 @
               coordinate_messages dlo ''Longitude is required and must be a valid number''
                 ''Longitude must be between -180 and 180'' (- 180) 180))"
  unfolding validateSchoolInput_def Let_def
    text_step [OF assms(1)] text_step [OF assms(2)]
    coordinate_step [OF assms(3)] coordinate_step [OF assms(4)]
  by (simp add: bind_err_def)

lemma text_messages_cases: "text_messages v m = [] \<or> text_messages v m = [m]"
  by (simp add: text_messages_def split: jsval.splits)

lemma coordinate_messages_cases:
  "coordinate_messages v r b lo hi = [] \<or> coordinate_messages v r b lo hi = [r] \<or>
   coordinate_messages v r b lo hi = [b]"
  by (simp add: coordinate_messages_def)

lemma validateSchoolInput_Inr:
  assumes "validateSchoolInput data = Inr errs"
  obtains dn da dla dlo where
    "get_prop data ''name'' = Inr dn" "get_prop data ''address'' = Inr da"
    "get_prop data ''latitude'' = Inr dla" "get_prop data ''longitude'' = Inr dlo"
    "\<not> (truthy dla \<and> toString_throws dla)" "\<not> (truthy dlo \<and> toString_throws dlo)"
    "errs = text_messages dn ''Name is required and must be a non-empty string'' @
               text_messages da ''Address is required and must be a non-empty string'' @
               coordinate_messages dla ''Latitude is required and must be a valid number''
                 ''Latitude must be between -90 and 90'' (- 90) 90 @
               coordinate_messages dlo ''Longitude is required and must be a valid number''
                 ''Longitude must be between -180 and 180'' (- 180) 180"
proof -
  have "data \<noteq> JUndefined" "data \<noteq> JNull"
    using assms validateSchoolInput_null [of data] by auto
  then obtain dn da dla dlo where
    g: "get_prop data ''name'' = Inr dn" "get_prop data ''address'' = Inr da"
       "get_prop data ''latitude'' = Inr dla" "get_prop data ''longitude'' = Inr dlo"
    using get_prop_total by metis
  note v = assms [unfolded validateSchoolInput_fields [OF g]]
  from v have t: "\<not> (truthy dla \<and> toString_throws dla)" "\<not> (truthy dlo \<and> toString_throws dlo)"
    by (auto split: if_splits)
  with v have "errs = text_messages dn ''Name is required and must be a non-empty string'' @
               text_messages da ''Address is required and must be a non-empty string'' @
               coordinate_messages dla ''Latitude is required and must be a valid number''
                 ''Latitude must be between -90 and 90'' (- 90) 90 @
               coordinate_messages dlo ''Longitude is required and must be a valid number''
                 ''Longitude must be between -180 and 180'' (- 180) 180"
    by simp
  with g t show thesis by (rule that)
qed

lemma length_text_messages: "length (text_messages v m) \<le> 1"
  by (simp add: text_messages_def split: jsval.splits)

lemma length_coordinate_messages: "length (coordinate_messages v r b lo hi) \<le> 1"
  by (simp add: coordinate_messages_def)

lemma set_text_messages:
  "x \<in> set (text_messages v m) \<longleftrightarrow> x = m \<and> \<not> (\<exists>n. v = JString n \<and> trim n \<noteq> [])"
  by (auto simp: text_messages_def split: jsval.splits)

lemma set_coordinate_messages:
  "x \<in> set (coordinate_messages v r b lo hi) \<longleftrightarrow>
     x = r \<and> (\<not> truthy v \<or> isNaN (parseFloat_text v)) \<or>
     x = b \<and> truthy v \<and> \<not> isNaN (parseFloat_text v) \<and>
       (js_lt (parseFloat_text v) (Fin lo) \<or> js_gt (parseFloat_text v) (Fin hi))"
  by (auto simp: coordinate_messages_def)

lemma isNaN_iff: "isNaN c \<longleftrightarrow> c = NaN"
  by (cases c) simp_all

lemma required_iff:
  assumes "\<not> (truthy v \<and> toString_throws v)"
  shows "(\<not> truthy v \<or> isNaN (parseFloat_text v)) \<longleftrightarrow> (\<not> truthy v \<or> parseFloat v = Inr NaN)"
  using assms by (auto simp: parseFloat_def isNaN_iff)

lemma bounds_iff:
  assumes "\<not> (truthy v \<and> toString_throws v)"
  shows "(truthy v \<and> \<not> isNaN (parseFloat_text v) \<and>
           (js_lt (parseFloat_text v) (Fin lo) \<or> js_gt (parseFloat_text v) (Fin hi))) \<longleftrightarrow>
         (truthy v \<and> (\<exists>c. parseFloat v = Inr c \<and> \<not> isNaN c \<and> (js_lt c (Fin lo) \<or> js_gt c (Fin hi))))"
  using assms by (auto simp: parseFloat_def)

lemma zero_is_missing:
  "coordinate_messages (JNumber (Fin 0)) r b lo hi = [r]"
  by (simp add: coordinate_messages_def)

lemma valid_input:
  assumes "validateSchoolInput d = Inr []"
  shows "\<exists>n a dla dlo x y.
     get_prop d ''name'' = Inr (JString n) \<and> trim n \<noteq> [] \<and>
     get_prop d ''address'' = Inr (JString a) \<and> trim a \<noteq> [] \<and>
     get_prop d ''latitude'' = Inr dla \<and> truthy dla \<and> parseFloat dla = Inr (Fin x) \<and> - 90 \<le> x \<and> x \<le> 90 \<and>
     get_prop d ''longitude'' = Inr dlo \<and> truthy dlo \<and> parseFloat dlo = Inr (Fin y) \<and> - 180 \<le> y \<and> y \<le> 180"
proof -
  have "d \<noteq> JUndefined" "d \<noteq> JNull"
    using assms validateSchoolInput_null [of d] by auto
  then obtain dn da dla dlo where
    g: "get_prop d ''name'' = Inr dn" "get_prop d ''address'' = Inr da"
       "get_prop d ''latitude'' = Inr dla" "get_prop d ''longitude'' = Inr dlo"
    using get_prop_total by metis
  note v = assms [unfolded validateSchoolInput_fields [OF g]]
  from v have t: "\<not> (truthy dla \<and> toString_throws dla)" "\<not> (truthy dlo \<and> toString_throws dlo)"
    by (auto split: if_splits)
  from v t have m: "text_messages dn ''Name is required and must be a non-empty string'' = []"
     "text_messages da ''Address is required and must be a non-empty string'' = []"
     "coordinate_messages dla ''Latitude is required and must be a valid number''
                 ''Latitude must be between -90 and 90'' (- 90) 90 = []"
     "coordinate_messages dlo ''Longitude is required and must be a valid number''
                 ''Longitude must be between -180 and 180'' (- 180) 180 = []"
    by simp_all
  from m(1) obtain n where n: "dn = JString n" "trim n \<noteq> []"
    by (auto simp: text_messages_def split: if_splits jsval.splits)
  from m(2) obtain a where a: "da = JString a" "trim a \<noteq> []"
    by (auto simp: text_messages_def split: if_splits jsval.splits)
  from m(3) have la: "truthy dla" "\<not> isNaN (parseFloat_text dla) \<and> \<not> js_lt (parseFloat_text dla) (Fin (- 90)) \<and>
      \<not> js_gt (parseFloat_text dla) (Fin 90)"
    by (auto simp: coordinate_messages_def split: if_splits)
  from m(4) have lo: "truthy dlo" "\<not> isNaN (parseFloat_text dlo) \<and> \<not> js_lt (parseFloat_text dlo) (Fin (- 180)) \<and>
      \<not> js_gt (parseFloat_text dlo) (Fin 180)"
    by (auto simp: coordinate_messages_def split: if_splits)
  from la(2) obtain x where x: "parseFloat_text dla = Fin x" "- 90 \<le> x" "x \<le> 90"
    unfolding in_range_Fin by blast
  from lo(2) obtain y where y: "parseFloat_text dlo = Fin y" "- 180 \<le> y" "y \<le> 180"
    unfolding in_range_Fin by blast
  have "parseFloat dla = Inr (Fin x)" "parseFloat dlo = Inr (Fin y)"
    using t la(1) lo(1) x(1) y(1) by (simp_all add: parseFloat_def)
  with g n a la(1) lo(1) x y show ?thesis
    by blast
qed

section \<open>Facts about the distance\<close>

lemma ctl_calculateDistance_eq: "ctl_calculateDistance a b c d = calculateDistance a b c d"
  by (simp add: ctl_calculateDistance_def calculateDistance_def Let_def)

lemma js_sub_Fin: "js_sub (Fin x) (Fin y) = Fin (x - y)"
  by (simp add: js_sub_def)






section \<open>Facts about the sort\<close>

lemma sort_insert_insort_key:
  assumes "key x = Fin (f x)" "\<forall>y\<in>set ys. key y = Fin (f y)"
  shows "sort_insert (\<lambda>a b. js_sub (key a) (key b)) x ys = insort_key f x ys"
  using assms by (induction ys) (auto simp: js_sub_Fin js_gt_def)

lemma array_sort_sort_key:
  assumes "\<forall>x\<in>set xs. key x = Fin (f x)"
  shows "array_sort (\<lambda>a b. js_sub (key a) (key b)) xs = sort_key f xs"
  using assms
proof (induction xs)
  case Nil
  then show ?case by (simp add: array_sort_def)
next
  case (Cons x xs)
  then have "array_sort (\<lambda>a b. js_sub (key a) (key b)) xs = sort_key f xs"
    by simp
  moreover have "sort_insert (\<lambda>a b. js_sub (key a) (key b)) x (sort_key f xs) = insort_key f x (sort_key f xs)"
    using Cons.prems by (intro sort_insert_insort_key) simp_all
  ultimately show ?case
    by (simp add: array_sort_def sort_key_def)
qed

lemma mset_sort_insert: "mset (sort_insert cmp x ys) = add_mset x (mset ys)"
  by (induction ys) simp_all

lemma mset_array_sort: "mset (array_sort cmp xs) = mset xs"
  by (induction xs) (simp_all add: array_sort_def mset_sort_insert)

lemma length_array_sort: "length (array_sort cmp xs) = length xs"
  using mset_array_sort [of cmp xs] by (metis size_mset)

section \<open>Facts about the handlers\<close>

lemma ctl_addSchool_eq: "ctl_addSchool oc d s = addSchool None oc d s"
  unfolding ctl_addSchool_def addSchool_def ctl_validateSchoolInput_eq
  by (simp split: prod.splits sum.splits)

lemma ctl_with_distance_eq: "ctl_with_distance a b r = with_distance a b r"
  by (simp add: ctl_with_distance_def with_distance_def ctl_calculateDistance_eq)

lemma ctl_listSchools_eq: "ctl_listSchools oc a b s = listSchools None oc a b s"
  unfolding ctl_listSchools_def listSchools_def ctl_with_distance_eq
  by (simp split: prod.splits sum.splits)

lemma addSchool_invalid:
  assumes "validateSchoolInput d = Inr errs" "errs \<noteq> []"
  shows "addSchool ne oc d s = (\<lparr>status = 400, payload = Errors errs\<rparr>, s)"
  using assms by (simp add: addSchool_def io_bind_def io_lift_def io_return_def)

lemma addSchool_throws:
  assumes "validateSchoolInput d = Inl e"
  shows "addSchool ne oc d s =
    (\<lparr>status = 500, payload = Failure ''Internal server error''
        (if ne = Some ''development'' then Some (message e) else None)\<rparr>, s)"
  using assms by (simp add: addSchool_def io_bind_def io_lift_def io_return_def)

lemma addSchool_valid:
  assumes "validateSchoolInput d = Inr []"
    and "get_prop d ''name'' = Inr (JString n)" "get_prop d ''address'' = Inr (JString a)"
    and "get_prop d ''latitude'' = Inr dla" "parseFloat dla = Inr (Fin x)"
    and "get_prop d ''longitude'' = Inr dlo" "parseFloat dlo = Inr (Fin y)"
  shows "addSchool ne oc d s =
    (case oc of
       Serves \<Rightarrow>
         (\<lparr>status = 201, payload = Added ''School added successfully'' (next_id s)\<rparr>,
          s\<lparr>rows := rows s @ [\<lparr>id' = next_id s, name = trim n, address = trim a,
                                 latitude = x, longitude = y\<rparr>],
            next_id := next_id s + 1,
            calls := calls s @ [GetConnection, InsertSchool (trim n) (trim a) (Fin x) (Fin y), Release]\<rparr>)
     | ConnectionFails m \<Rightarrow>
         (\<lparr>status = 500, payload = Failure ''Internal server error''
             (if ne = Some ''development'' then Some m else None)\<rparr>,
          s\<lparr>calls := calls s @ [GetConnection]\<rparr>)
     | QueryFails m \<Rightarrow>
         (\<lparr>status = 500, payload = Failure ''Internal server error''
             (if ne = Some ''development'' then Some m else None)\<rparr>,
          s\<lparr>calls := calls s @ [GetConnection, InsertSchool (trim n) (trim a) (Fin x) (Fin y)]\<rparr>))"
  using assms
  by (cases oc)
     (simp_all add: addSchool_def io_bind_def io_lift_def io_return_def bind_err_def
        pool_getConnection_def query_insert_def connection_release_def Let_def)

lemma listSchools_throws:
  assumes "toString_throws q_lat \<or> toString_throws q_lon"
  shows "listSchools ne oc q_lat q_lon s =
    (\<lparr>status = 500, payload = Failure ''Internal server error''
        (if ne = Some ''development'' then Some ''Cannot convert object to primitive value'' else None)\<rparr>, s)"
  using assms by (auto simp add: listSchools_def io_bind_def io_lift_def io_return_def parseFloat_def)

lemma listSchools_invalid:
  assumes "parseFloat q_lat = Inr a" "parseFloat q_lon = Inr b"
    and "isNaN a \<or> isNaN b \<or> js_lt a (Fin (- 90)) \<or> js_gt a (Fin 90) \<or>
         js_lt b (Fin (- 180)) \<or> js_gt b (Fin 180)"
  shows "listSchools ne oc q_lat q_lon s =
    (\<lparr>status = 400, payload = Failure ''Invalid latitude or longitude provided'' None\<rparr>, s)"
  using assms by (simp add: listSchools_def io_bind_def io_lift_def io_return_def)

lemma listSchools_valid:
  assumes "parseFloat q_lat = Inr (Fin x)" "parseFloat q_lon = Inr (Fin y)"
    and "- 90 \<le> x" "x \<le> 90" "- 180 \<le> y" "y \<le> 180"
  shows "listSchools ne oc q_lat q_lon s =
    (case oc of
       Serves \<Rightarrow>
         (\<lparr>status = 200, payload = Listing (length (rows s))
             (array_sort (\<lambda>a b. js_sub (distance a) (distance b))
                (map (with_distance (Fin x) (Fin y)) (rows s)))\<rparr>,
          s\<lparr>calls := calls s @ [GetConnection, SelectSchools, Release]\<rparr>)
     | ConnectionFails m \<Rightarrow>
         (\<lparr>status = 500, payload = Failure ''Internal server error''
             (if ne = Some ''development'' then Some m else None)\<rparr>,
          s\<lparr>calls := calls s @ [GetConnection]\<rparr>)
     | QueryFails m \<Rightarrow>
         (\<lparr>status = 500, payload = Failure ''Internal server error''
             (if ne = Some ''development'' then Some m else None)\<rparr>,
          s\<lparr>calls := calls s @ [GetConnection, SelectSchools]\<rparr>))"
  using assms
  by (cases oc)
     (simp_all add: listSchools_def io_bind_def io_lift_def io_return_def js_gt_def
        pool_getConnection_def query_select_def connection_release_def Let_def length_array_sort)

lemma addSchool_valid_Serves:
  assumes "validateSchoolInput d = Inr []"
    and "get_prop d ''name'' = Inr (JString n)" "get_prop d ''address'' = Inr (JString a)"
    and "get_prop d ''latitude'' = Inr dla" "parseFloat dla = Inr (Fin x)"
    and "get_prop d ''longitude'' = Inr dlo" "parseFloat dlo = Inr (Fin y)"
  shows "addSchool ne Serves d s =
         (\<lparr>status = 201, payload = Added ''School added successfully'' (next_id s)\<rparr>,
          s\<lparr>rows := rows s @ [\<lparr>id' = next_id s, name = trim n, address = trim a,
                                 latitude = x, longitude = y\<rparr>],
            next_id := next_id s + 1,
            calls := calls s @ [GetConnection, InsertSchool (trim n) (trim a) (Fin x) (Fin y), Release]\<rparr>)"
  by (simp only: addSchool_valid [OF assms] db_outcome.case)

lemma listSchools_valid_Serves:
  assumes "parseFloat q_lat = Inr (Fin x)" "parseFloat q_lon = Inr (Fin y)"
    and "- 90 \<le> x" "x \<le> 90" "- 180 \<le> y" "y \<le> 180"
  shows "listSchools ne Serves q_lat q_lon s =
         (\<lparr>status = 200, payload = Listing (length (rows s))
             (array_sort (\<lambda>a b. js_sub (distance a) (distance b))
                (map (with_distance (Fin x) (Fin y)) (rows s)))\<rparr>,
          s\<lparr>calls := calls s @ [GetConnection, SelectSchools, Release]\<rparr>)"
  by (simp only: listSchools_valid [OF assms] db_outcome.case)

lemma addSchool_valid_fails:
  assumes "validateSchoolInput d = Inr []" "oc \<noteq> Serves"
  shows "\<exists>m. fst (addSchool ne oc d s) =
           \<lparr>status = 500, payload = Failure ''Internal server error''
              (if ne = Some ''development'' then Some m else None)\<rparr> \<and>
         rows (snd (addSchool ne oc d s)) = rows s"
proof -
  from valid_input [OF assms(1)] obtain n a dla dlo x y where
    g: "get_prop d ''name'' = Inr (JString n)" "get_prop d ''address'' = Inr (JString a)"
       "get_prop d ''latitude'' = Inr dla" "parseFloat dla = Inr (Fin x)"
       "get_prop d ''longitude'' = Inr dlo" "parseFloat dlo = Inr (Fin y)"
    by blast
  show ?thesis
    using assms(2) by (cases oc) (simp_all add: addSchool_valid [OF assms(1) g])
qed

lemma listSchools_valid_fails:
  assumes "parseFloat q_lat = Inr (Fin x)" "parseFloat q_lon = Inr (Fin y)"
    and "- 90 \<le> x" "x \<le> 90" "- 180 \<le> y" "y \<le> 180" and "oc \<noteq> Serves"
  shows "\<exists>m. fst (listSchools ne oc q_lat q_lon s) =
           \<lparr>status = 500, payload = Failure ''Internal server error''
              (if ne = Some ''development'' then Some m else None)\<rparr> \<and>
         rows (snd (listSchools ne oc q_lat q_lon s)) = rows s"
  using assms(7) by (cases oc) (simp_all add: listSchools_valid [OF assms(1-6)])

lemma addSchool_status_500:
  assumes "status (fst (addSchool ne oc d s)) = 500"
  shows "\<exists>m. payload (fst (addSchool ne oc d s)) =
           Failure ''Internal server error'' (if ne = Some ''development'' then Some m else None)"
proof (cases "validateSchoolInput d")
  case (Inl e)
  then show ?thesis by (simp add: addSchool_throws)
next
  case (Inr errs)
  show ?thesis
  proof (cases "errs = []")
    case False
    with Inr assms show ?thesis by (simp add: addSchool_invalid)
  next
    case True
    with Inr have v: "validateSchoolInput d = Inr []" by simp
    show ?thesis
    proof (cases "oc = Serves")
      case True
      from valid_input [OF v] obtain n a dla dlo x y where
        g: "get_prop d ''name'' = Inr (JString n)" "get_prop d ''address'' = Inr (JString a)"
           "get_prop d ''latitude'' = Inr dla" "parseFloat dla = Inr (Fin x)"
           "get_prop d ''longitude'' = Inr dlo" "parseFloat dlo = Inr (Fin y)"
        by blast
      from assms True show ?thesis
        by (simp add: addSchool_valid [OF v g])
    next
      case False
      from addSchool_valid_fails [OF v False, of ne s] show ?thesis
        by auto
    qed
  qed
qed

lemma listSchools_status_500:
  assumes "status (fst (listSchools ne oc q_lat q_lon s)) = 500"
  shows "\<exists>m. payload (fst (listSchools ne oc q_lat q_lon s)) =
           Failure ''Internal server error'' (if ne = Some ''development'' then Some m else None)"
proof (cases "toString_throws q_lat \<or> toString_throws q_lon")
  case True
  then show ?thesis by (simp only: listSchools_throws) auto
next
  case False
  then have p: "parseFloat q_lat = Inr (parseFloat_text q_lat)"
    "parseFloat q_lon = Inr (parseFloat_text q_lon)"
    by (simp_all add: parseFloat_def)
  show ?thesis
  proof (cases "isNaN (parseFloat_text q_lat) \<or> isNaN (parseFloat_text q_lon) \<or>
       js_lt (parseFloat_text q_lat) (Fin (- 90)) \<or> js_gt (parseFloat_text q_lat) (Fin 90) \<or>
       js_lt (parseFloat_text q_lon) (Fin (- 180)) \<or> js_gt (parseFloat_text q_lon) (Fin 180)")
    case True
    from assms show ?thesis
      by (simp add: listSchools_invalid [OF p True])
  next
    case False
    then obtain x y where x: "parseFloat_text q_lat = Fin x" "- 90 \<le> x" "x \<le> 90"
      and y: "parseFloat_text q_lon = Fin y" "- 180 \<le> y" "y \<le> 180"
      using in_range_Fin [of "parseFloat_text q_lat" "- 90" 90]
        in_range_Fin [of "parseFloat_text q_lon" "- 180" 180] by auto
    note v = listSchools_valid [OF p [unfolded x(1) y(1)] x(2,3) y(2,3)]
    from assms show ?thesis
      by (cases oc) (simp_all add: v)
  qed
qed

lemma addSchool_rows:
  "rows (snd (addSchool ne oc d s)) = rows s \<or>
   (\<exists>n a x y. rows (snd (addSchool ne oc d s)) =
       rows s @ [\<lparr>id' = next_id s, name = trim n, address = trim a, latitude = x, longitude = y\<rparr>] \<and>
     trim n \<noteq> [] \<and> trim a \<noteq> [] \<and> - 90 \<le> x \<and> x \<le> 90 \<and> - 180 \<le> y \<and> y \<le> 180)"
proof (cases "validateSchoolInput d")
  case (Inl e)
  then show ?thesis by (simp add: addSchool_throws)
next
  case (Inr errs)
  show ?thesis
  proof (cases "errs = []")
    case False
    with Inr show ?thesis by (simp add: addSchool_invalid)
  next
    case True
    with Inr have v: "validateSchoolInput d = Inr []" by simp
    from valid_input [OF v] obtain n a dla dlo x y where
      g: "get_prop d ''name'' = Inr (JString n)" "get_prop d ''address'' = Inr (JString a)"
         "get_prop d ''latitude'' = Inr dla" "parseFloat dla = Inr (Fin x)"
         "get_prop d ''longitude'' = Inr dlo" "parseFloat dlo = Inr (Fin y)"
      and b: "trim n \<noteq> []" "trim a \<noteq> []" "- 90 \<le> x" "x \<le> 90" "- 180 \<le> y" "y \<le> 180"
      by blast
    show ?thesis
    proof (cases oc)
      case Serves
      have "rows (snd (addSchool ne oc d s)) =
         rows s @ [\<lparr>id' = next_id s, name = trim n, address = trim a, latitude = x, longitude = y\<rparr>]"
        unfolding Serves by (simp add: addSchool_valid_Serves [OF v g])
      with b show ?thesis by blast
    next
      case (ConnectionFails m)
      then show ?thesis by (simp add: addSchool_valid [OF v g])
    next
      case (QueryFails m)
      then show ?thesis by (simp add: addSchool_valid [OF v g])
    qed
  qed
qed

lemma listSchools_rows: "rows (snd (listSchools ne oc q_lat q_lon s)) = rows s"
proof (cases "toString_throws q_lat \<or> toString_throws q_lon")
  case True
  then show ?thesis by (simp only: listSchools_throws) simp
next
  case False
  then have p: "parseFloat q_lat = Inr (parseFloat_text q_lat)"
    "parseFloat q_lon = Inr (parseFloat_text q_lon)"
    by (simp_all add: parseFloat_def)
  show ?thesis
  proof (cases "isNaN (parseFloat_text q_lat) \<or> isNaN (parseFloat_text q_lon) \<or>
       js_lt (parseFloat_text q_lat) (Fin (- 90)) \<or> js_gt (parseFloat_text q_lat) (Fin 90) \<or>
       js_lt (parseFloat_text q_lon) (Fin (- 180)) \<or> js_gt (parseFloat_text q_lon) (Fin 180)")
    case True
    show ?thesis
      by (simp add: listSchools_invalid [OF p True])
  next
    case False
    then obtain x y where x: "parseFloat_text q_lat = Fin x" "- 90 \<le> x" "x \<le> 90"
      and y: "parseFloat_text q_lon = Fin y" "- 180 \<le> y" "y \<le> 180"
      using in_range_Fin [of "parseFloat_text q_lat" "- 90" 90]
        in_range_Fin [of "parseFloat_text q_lon" "- 180" 180] by auto
    note v = listSchools_valid [OF p [unfolded x(1) y(1)] x(2,3) y(2,3)]
    show ?thesis
      by (cases oc) (simp_all add: v)
  qed
qed

lemma school_json_props:
  "get_prop (school_json r) ''name'' = Inr (JString (name r))"
  "get_prop (school_json r) ''address'' = Inr (JString (address r))"
  "get_prop (school_json r) ''latitude'' = Inr (JNumber (Fin (latitude r)))"
  "get_prop (school_json r) ''longitude'' = Inr (JNumber (Fin (longitude r)))"
  by (simp_all add: school_json_def)

lemma persisted_rows_satisfy_constraints:
  assumes "reachable s"
  shows "\<forall>r\<in>set (rows s).
     name r \<noteq> [] \<and> trim (name r) = name r \<and>
     address r \<noteq> [] \<and> trim (address r) = address r \<and>
     - 90 \<le> latitude r \<and> latitude r \<le> 90 \<and> - 180 \<le> longitude r \<and> longitude r \<le> 180"
  using assms
proof (induction rule: reachable.induct)
  case start
  show ?case by (simp add: initial_db_def)
next
  case (add s node_env oc schoolData)
  from addSchool_rows [of node_env oc schoolData s] add.IH show ?case
    by (auto simp: trim_idem)
next
  case (list s node_env oc q_latitude q_longitude)
  then show ?case by (simp add: listSchools_rows)
next
  case (ctl_add s oc schoolData)
  from addSchool_rows [of None oc schoolData s] ctl_add.IH show ?case
    unfolding ctl_addSchool_eq by (auto simp: trim_idem)
next
  case (ctl_list s oc q_latitude q_longitude)
  then show ?case by (simp add: ctl_listSchools_eq listSchools_rows)
qed

lemma stored_row_revalidated:
  assumes "name r \<noteq> []" "trim (name r) = name r" "address r \<noteq> []" "trim (address r) = address r"
    and "- 90 \<le> latitude r" "latitude r \<le> 90" "- 180 \<le> longitude r" "longitude r \<le> 180"
  shows "validateSchoolInput (school_json r) =
     Inr ((if latitude r = 0 then [''Latitude is required and must be a valid number''] else []) @
          (if longitude r = 0 then [''Longitude is required and must be a valid number''] else []))"
  using assms
  by (simp add: validateSchoolInput_fields [OF school_json_props] text_messages_def
      coordinate_messages_def js_gt_def)

lemma toFixed2_parsed_round:
  assumes "0 \<le> d" "d < 10 ^ 21"
  shows "\<exists>n. toFixed2_parsed (Fin d) = Fin (real_of_int n / 100) \<and>
             \<bar>real_of_int n / 100 - d\<bar> \<le> 1 / 200"
proof -
  let ?n = "\<lfloor>d * 100 + 1 / 2\<rfloor>"
  define m where "m = real_of_int ?n"
  have "m \<le> d * 100 + 1 / 2" "d * 100 + 1 / 2 < m + 1"
    unfolding m_def by linarith+
  then have "\<bar>m / 100 - d\<bar> \<le> 1 / 200"
    by linarith
  then have "\<bar>real_of_int ?n / 100 - d\<bar> \<le> 1 / 200"
    by (simp only: m_def)
  moreover have "toFixed2_parsed (Fin d) = Fin (real_of_int ?n / 100)"
    using assms by simp
  ultimately show ?thesis by blast
qed

lemma with_distance_fields:
  "latitude (with_distance a b r) = latitude r"
  "longitude (with_distance a b r) = longitude r"
  "distance (with_distance a b r) =
     toFixed2_parsed (calculateDistance a b (Fin (latitude r)) (Fin (longitude r)))"
  "school.truncate (with_distance a b r) = r"
  by (simp_all add: with_distance_def school.extend_def school_with_distance.fields_def
        school.truncate_def Let_def)

text \<open>A list in which every distance is a number is sorted as expected: the result holds
  the same elements, in non-decreasing order of distance, elements of equal distance in
  their former order, and sorting again changes nothing.\<close>

lemma sorted_by_distance:
  fixes xs :: "school_with_distance list"
  assumes "\<forall>r\<in>set xs. \<exists>d. distance r = Fin d"
  defines "out \<equiv> array_sort (\<lambda>a b. js_sub (distance a) (distance b)) xs"
  shows "mset out = mset xs"
    and "\<exists>ds. map distance out = map Fin ds \<and> sorted ds"
    and "filter (\<lambda>r. distance r = k) out = filter (\<lambda>r. distance r = k) xs"
    and "array_sort (\<lambda>a b. js_sub (distance a) (distance b)) out = out"
proof -
  from assms(1) obtain f where f: "\<forall>r\<in>set xs. distance r = Fin (f r)"
    by metis
  have out: "out = sort_key f xs"
    unfolding out_def using f by (rule array_sort_sort_key)
  show "mset out = mset xs"
    by (simp add: out)
  have fo: "\<forall>r\<in>set out. distance r = Fin (f r)"
    using f by (simp add: out)
  have "map distance out = map Fin (map f out)"
    using fo by simp
  moreover have "sorted (map f out)"
    by (simp add: out)
  ultimately show "\<exists>ds. map distance out = map Fin ds \<and> sorted ds"
    by blast
  show "filter (\<lambda>r. distance r = k) out = filter (\<lambda>r. distance r = k) xs"
  proof (cases k)
    case (Fin v)
    have "filter (\<lambda>r. distance r = k) out = filter (\<lambda>r. f r = v) out"
      using fo by (intro filter_cong) (auto simp: Fin)
    also have "\<dots> = filter (\<lambda>r. f r = v) xs"
      unfolding out by (rule sort_key_stable)
    also have "\<dots> = filter (\<lambda>r. distance r = k) xs"
      using f by (intro filter_cong) (auto simp: Fin)
    finally show ?thesis .
  next
    case NaN
    have "filter (\<lambda>r. distance r = k) out = []" "filter (\<lambda>r. distance r = k) xs = []"
      using fo f by (auto simp: NaN filter_empty_conv)
    then show ?thesis by simp
  next
    case NegInfinity
    have "filter (\<lambda>r. distance r = k) out = []" "filter (\<lambda>r. distance r = k) xs = []"
      using fo f by (auto simp: NegInfinity filter_empty_conv)
    then show ?thesis by simp
  next
    case PosInfinity
    have "filter (\<lambda>r. distance r = k) out = []" "filter (\<lambda>r. distance r = k) xs = []"
      using fo f by (auto simp: PosInfinity filter_empty_conv)
    then show ?thesis by simp
  qed
  have "array_sort (\<lambda>a b. js_sub (distance a) (distance b)) out = sort_key f out"
    using fo by (rule array_sort_sort_key)
  also have "\<dots> = out"
    by (rule sort_key_id_if_sorted) (simp add: out)
  finally show "array_sort (\<lambda>a b. js_sub (distance a) (distance b)) out = out" .
qed

text \<open>The definitions a concrete request is evaluated with.\<close>

lemmas eval_simps = validateSchoolInput_def bind_err_def or_else_def trim_def is_ws_def
  parseFloat_def parseFloat_str_def is_digit_def digits_value_def js_gt_def Let_def

section \<open>The claims\<close>

text \<open>
  C1, as stated, fails on the list path: the query \<open>latitude=0&longitude=0\<close> is answered
  200, not 400.  The list handler tests the parsed numbers with \<open>isNaN\<close> and the bounds
  only; the test \<open>!data.latitude\<close> belongs to the validator of the add path.
\<close>

theorem listSchools_accepts_zero:
  "status (fst (listSchools None Serves (JString ''0'') (JString ''0'') initial_db)) = 200 \<and>
   status (fst (listSchools None Serves (JString ''0'') (JString ''0'') initial_db)) \<noteq> 400"
proof -
  have p: "parseFloat (JString ''0'') = Inr (Fin 0)"
    by (simp add: eval_simps)
  have "status (fst (listSchools None Serves (JString ''0'') (JString ''0'') initial_db)) = 200"
    by (simp add: listSchools_valid_Serves [OF p p])
  then show ?thesis by simp
qed

text \<open>
  C1, amended.  On the add path a latitude or longitude that is the number 0 counts as
  missing: whenever the validator returns, its list has the message that the coordinate is
  required, and the handler (either entry point) answers 400 and leaves the datastore as
  it was.  The list path has no such rule: a query whose coordinates are in range, one of
  them 0, is never answered 400, and is answered 200 when the datastore serves.
\<close>

theorem zero_rejected_by_addSchool_only:
  "(validateSchoolInput data = Inr errs \<and>
    (get_prop data ''latitude'' = Inr (JNumber (Fin 0)) \<or>
     get_prop data ''longitude'' = Inr (JNumber (Fin 0))) \<longrightarrow>
      addSchool node_env oc data s = (\<lparr>status = 400, payload = Errors errs\<rparr>, s) \<and>
      ctl_addSchool oc data s = (\<lparr>status = 400, payload = Errors errs\<rparr>, s) \<and>
      (get_prop data ''latitude'' = Inr (JNumber (Fin 0)) \<longrightarrow>
         ''Latitude is required and must be a valid number'' \<in> set errs) \<and>
      (get_prop data ''longitude'' = Inr (JNumber (Fin 0)) \<longrightarrow>
         ''Longitude is required and must be a valid number'' \<in> set errs)) \<and>
   (parseFloat q_latitude = Inr (Fin x) \<and> parseFloat q_longitude = Inr (Fin y) \<and>
    - 90 \<le> x \<and> x \<le> 90 \<and> - 180 \<le> y \<and> y \<le> 180 \<and> (x = 0 \<or> y = 0) \<longrightarrow>
      status (fst (listSchools node_env oc q_latitude q_longitude s)) \<noteq> 400 \<and>
      status (fst (ctl_listSchools oc q_latitude q_longitude s)) \<noteq> 400 \<and>
      status (fst (listSchools node_env Serves q_latitude q_longitude s)) = 200 \<and>
      status (fst (ctl_listSchools Serves q_latitude q_longitude s)) = 200)"
proof (intro conjI impI; (elim conjE)?)
  assume v: "validateSchoolInput data = Inr errs"
    and z: "get_prop data ''latitude'' = Inr (JNumber (Fin 0)) \<or>
            get_prop data ''longitude'' = Inr (JNumber (Fin 0))"
  from v obtain dn da dla dlo where
    g: "get_prop data ''latitude'' = Inr dla" "get_prop data ''longitude'' = Inr dlo"
    and e: "errs = text_messages dn ''Name is required and must be a non-empty string'' @
               text_messages da ''Address is required and must be a non-empty string'' @
               coordinate_messages dla ''Latitude is required and must be a valid number''
                 ''Latitude must be between -90 and 90'' (- 90) 90 @
               coordinate_messages dlo ''Longitude is required and must be a valid number''
                 ''Longitude must be between -180 and 180'' (- 180) 180"
    by (rule validateSchoolInput_Inr)
  have la: "''Latitude is required and must be a valid number'' \<in> set errs"
    if "get_prop data ''latitude'' = Inr (JNumber (Fin 0))"
    using that g(1) unfolding e by (simp add: zero_is_missing)
  have lo: "''Longitude is required and must be a valid number'' \<in> set errs"
    if "get_prop data ''longitude'' = Inr (JNumber (Fin 0))"
    using that g(2) unfolding e by (simp add: zero_is_missing)
  from z la lo have n: "errs \<noteq> []"
    by auto
  show "addSchool node_env oc data s = (\<lparr>status = 400, payload = Errors errs\<rparr>, s)"
    using v n by (rule addSchool_invalid)
  show "ctl_addSchool oc data s = (\<lparr>status = 400, payload = Errors errs\<rparr>, s)"
    unfolding ctl_addSchool_eq using v n by (rule addSchool_invalid)
  show "''Latitude is required and must be a valid number'' \<in> set errs"
    if "get_prop data ''latitude'' = Inr (JNumber (Fin 0))"
    using that by (rule la)
  show "''Longitude is required and must be a valid number'' \<in> set errs"
    if "get_prop data ''longitude'' = Inr (JNumber (Fin 0))"
    using that by (rule lo)
next
  assume p: "parseFloat q_latitude = Inr (Fin x)" "parseFloat q_longitude = Inr (Fin y)"
    "- 90 \<le> x" "x \<le> 90" "- 180 \<le> y" "y \<le> 180"
  note v = listSchools_valid [OF p]
  show "status (fst (listSchools node_env oc q_latitude q_longitude s)) \<noteq> 400"
    by (cases oc) (simp_all add: v)
  show "status (fst (ctl_listSchools oc q_latitude q_longitude s)) \<noteq> 400"
    unfolding ctl_listSchools_eq by (cases oc) (simp_all add: v)
  show "status (fst (listSchools node_env Serves q_latitude q_longitude s)) = 200"
    by (simp add: v)
  show "status (fst (ctl_listSchools Serves q_latitude q_longitude s)) = 200"
    unfolding ctl_listSchools_eq by (simp add: v)
qed

theorem zero_rejected_by_addSchool_only_witness:
  "validateSchoolInput
     (JObject [(''name'', JString ''Equator School''), (''address'', JString ''1 Line Rd''),
               (''latitude'', JNumber (Fin 0)), (''longitude'', JNumber (Fin 10))]) =
     Inr [''Latitude is required and must be a valid number''] \<and>
   get_prop
     (JObject [(''name'', JString ''Equator School''), (''address'', JString ''1 Line Rd''),
               (''latitude'', JNumber (Fin 0)), (''longitude'', JNumber (Fin 10))])
     ''latitude'' = Inr (JNumber (Fin 0)) \<and>
   addSchool None Serves
     (JObject [(''name'', JString ''Equator School''), (''address'', JString ''1 Line Rd''),
               (''latitude'', JNumber (Fin 0)), (''longitude'', JNumber (Fin 10))]) initial_db =
     (\<lparr>status = 400,
        payload = Errors [''Latitude is required and must be a valid number'']\<rparr>, initial_db) \<and>
   parseFloat (JString ''0'') = Inr (Fin 0) \<and>
   parseFloat (JString ''10'') = Inr (Fin 10) \<and>
   status (fst (listSchools None Serves (JString ''0'') (JString ''10'') initial_db)) = 200"
proof -
  let ?d = "JObject [(''name'', JString ''Equator School''), (''address'', JString ''1 Line Rd''),
               (''latitude'', JNumber (Fin 0)), (''longitude'', JNumber (Fin 10))]"
  have v: "validateSchoolInput ?d = Inr [''Latitude is required and must be a valid number'']"
    by (simp add: eval_simps)
  have g: "get_prop ?d ''latitude'' = Inr (JNumber (Fin 0))"
    by simp
  have p: "parseFloat (JString ''0'') = Inr (Fin 0)"
    by (simp add: eval_simps)
  have q: "parseFloat (JString ''10'') = Inr (Fin 10)"
    by (simp add: eval_simps)
  note t = zero_rejected_by_addSchool_only [of ?d
      "[''Latitude is required and must be a valid number'']" None Serves initial_db
      "JString ''0''" 0 "JString ''10''" 10]
  have a: "addSchool None Serves ?d initial_db =
     (\<lparr>status = 400,
        payload = Errors [''Latitude is required and must be a valid number'']\<rparr>, initial_db)"
    by (rule t [THEN conjunct1, THEN mp, OF conjI [OF v disjI1 [OF g]], THEN conjunct1])
  have r: "- 90 \<le> (0::real) \<and> (0::real) \<le> 90 \<and> - 180 \<le> (10::real) \<and> (10::real) \<le> 180 \<and>
      ((0::real) = 0 \<or> (10::real) = 0)"
    by simp
  have b: "status (fst (listSchools None Serves (JString ''0'') (JString ''10'') initial_db)) = 200"
    by (rule t [THEN conjunct2, THEN mp, OF conjI [OF p conjI [OF q r]],
          THEN conjunct2, THEN conjunct2, THEN conjunct1])
  show ?thesis
    by (intro conjI v g a p q b)
qed

text \<open>
  C3.  When the validator returns no message and the datastore serves the request, the
  add-school handler (either entry point) inserts exactly one row, made of the trimmed
  name, the trimmed address and the numbers \<open>parseFloat\<close> reads from the latitude and the
  longitude, and answers 201 with the identifier the datastore gave that row.
\<close>

theorem addSchool_inserts_valid:
  assumes "validateSchoolInput data = Inr []"
  shows "\<exists>n a dla dlo x y.
     get_prop data ''name'' = Inr (JString n) \<and> get_prop data ''address'' = Inr (JString a) \<and>
     get_prop data ''latitude'' = Inr dla \<and> parseFloat dla = Inr (Fin x) \<and>
     get_prop data ''longitude'' = Inr dlo \<and> parseFloat dlo = Inr (Fin y) \<and>
     addSchool node_env Serves data s =
       (\<lparr>status = 201, payload = Added ''School added successfully'' (next_id s)\<rparr>,
        s\<lparr>rows := rows s @ [\<lparr>id' = next_id s, name = trim n, address = trim a,
                               latitude = x, longitude = y\<rparr>],
          next_id := next_id s + 1,
          calls := calls s @ [GetConnection, InsertSchool (trim n) (trim a) (Fin x) (Fin y),
                              Release]\<rparr>) \<and>
     ctl_addSchool Serves data s = addSchool node_env Serves data s"
proof -
  from valid_input [OF assms] obtain n a dla dlo x y where
    g: "get_prop data ''name'' = Inr (JString n)" "get_prop data ''address'' = Inr (JString a)"
       "get_prop data ''latitude'' = Inr dla" "parseFloat dla = Inr (Fin x)"
       "get_prop data ''longitude'' = Inr dlo" "parseFloat dlo = Inr (Fin y)"
    by blast
  note v = addSchool_valid_Serves [OF assms g(1,2,3,4,5,6)]
  have "ctl_addSchool Serves data s = addSchool node_env Serves data s"
    unfolding ctl_addSchool_eq by (simp only: v)
  with g v [of node_env s] show ?thesis
    by (intro exI conjI)
qed

theorem addSchool_inserts_valid_witness:
  "validateSchoolInput
     (JObject [(''name'', JString '' Hill School ''), (''address'', JString ''12 High St''),
               (''latitude'', JString ''45.5''), (''longitude'', JNumber (Fin (- 73.5)))]) = Inr [] \<and>
   addSchool None Serves
     (JObject [(''name'', JString '' Hill School ''), (''address'', JString ''12 High St''),
               (''latitude'', JString ''45.5''), (''longitude'', JNumber (Fin (- 73.5)))])
     initial_db =
     (\<lparr>status = 201, payload = Added ''School added successfully'' 1\<rparr>,
      \<lparr>rows = [\<lparr>id' = 1, name = ''Hill School'', address = ''12 High St'',
                 latitude = 45.5, longitude = - 73.5\<rparr>],
       next_id = 2,
       calls = [GetConnection, InsertSchool ''Hill School'' ''12 High St'' (Fin 45.5) (Fin (- 73.5)),
                Release]\<rparr>)"
proof -
  let ?d = "JObject [(''name'', JString '' Hill School ''), (''address'', JString ''12 High St''),
               (''latitude'', JString ''45.5''), (''longitude'', JNumber (Fin (- 73.5)))]"
  have v: "validateSchoolInput ?d = Inr []"
    by (simp add: eval_simps)
  from addSchool_inserts_valid [OF v, of None initial_db] obtain n a dla dlo x y where
    g: "get_prop ?d ''name'' = Inr (JString n)" "get_prop ?d ''address'' = Inr (JString a)"
       "get_prop ?d ''latitude'' = Inr dla" "parseFloat dla = Inr (Fin x)"
       "get_prop ?d ''longitude'' = Inr dlo" "parseFloat dlo = Inr (Fin y)"
    and r: "addSchool None Serves ?d initial_db =
       (\<lparr>status = 201, payload = Added ''School added successfully'' (next_id initial_db)\<rparr>,
        initial_db\<lparr>rows := rows initial_db @ [\<lparr>id' = next_id initial_db, name = trim n,
                               address = trim a, latitude = x, longitude = y\<rparr>],
          next_id := next_id initial_db + 1,
          calls := calls initial_db @ [GetConnection,
                     InsertSchool (trim n) (trim a) (Fin x) (Fin y), Release]\<rparr>)"
    by blast
  from g(1,2) have n: "n = '' Hill School ''" "a = ''12 High St''"
    by simp_all
  from g(3,5) have "dla = JString ''45.5''" "dlo = JNumber (Fin (- 73.5))"
    by simp_all
  with g(4,6) have x: "x = 45.5" "y = - 73.5"
    by (simp_all add: eval_simps)
  have "addSchool None Serves ?d initial_db =
     (\<lparr>status = 201, payload = Added ''School added successfully'' 1\<rparr>,
      \<lparr>rows = [\<lparr>id' = 1, name = ''Hill School'', address = ''12 High St'',
                 latitude = 45.5, longitude = - 73.5\<rparr>],
       next_id = 2,
       calls = [GetConnection, InsertSchool ''Hill School'' ''12 High St'' (Fin 45.5) (Fin (- 73.5)),
                Release]\<rparr>)"
    unfolding r n x by (simp add: initial_db_def trim_def is_ws_def)
  with v show ?thesis
    by (rule conjI)
qed

text \<open>
  C4.  When the validator returns at least one message, the add-school handler (either
  entry point) answers 400 with exactly the validator's list and leaves the datastore as
  it was: no row, no call to the pool.  The list is complete: each of the six messages is
  in it if and only if its own rule is broken, whatever the other fields are.
\<close>

theorem addSchool_rejects_invalid:
  assumes "validateSchoolInput data = Inr errs" and "errs \<noteq> []"
  shows "addSchool node_env oc data s = (\<lparr>status = 400, payload = Errors errs\<rparr>, s) \<and>
    ctl_addSchool oc data s = (\<lparr>status = 400, payload = Errors errs\<rparr>, s) \<and>
    (\<exists>dn da dla dlo.
       get_prop data ''name'' = Inr dn \<and> get_prop data ''address'' = Inr da \<and>
       get_prop data ''latitude'' = Inr dla \<and> get_prop data ''longitude'' = Inr dlo \<and>
       (''Name is required and must be a non-empty string'' \<in> set errs \<longleftrightarrow>
          \<not> (\<exists>n. dn = JString n \<and> trim n \<noteq> [])) \<and>
       (''Address is required and must be a non-empty string'' \<in> set errs \<longleftrightarrow>
          \<not> (\<exists>a. da = JString a \<and> trim a \<noteq> [])) \<and>
       (''Latitude is required and must be a valid number'' \<in> set errs \<longleftrightarrow>
          \<not> truthy dla \<or> parseFloat dla = Inr NaN) \<and>
       (''Latitude must be between -90 and 90'' \<in> set errs \<longleftrightarrow>
          truthy dla \<and> (\<exists>c. parseFloat dla = Inr c \<and> \<not> isNaN c \<and>
                            (js_lt c (Fin (- 90)) \<or> js_gt c (Fin 90)))) \<and>
       (''Longitude is required and must be a valid number'' \<in> set errs \<longleftrightarrow>
          \<not> truthy dlo \<or> parseFloat dlo = Inr NaN) \<and>
       (''Longitude must be between -180 and 180'' \<in> set errs \<longleftrightarrow>
          truthy dlo \<and> (\<exists>c. parseFloat dlo = Inr c \<and> \<not> isNaN c \<and>
                            (js_lt c (Fin (- 180)) \<or> js_gt c (Fin 180)))))"
proof -
  from assms(1) obtain dn da dla dlo where
    g: "get_prop data ''name'' = Inr dn" "get_prop data ''address'' = Inr da"
       "get_prop data ''latitude'' = Inr dla" "get_prop data ''longitude'' = Inr dlo"
    and t: "\<not> (truthy dla \<and> toString_throws dla)" "\<not> (truthy dlo \<and> toString_throws dlo)"
    and e: "errs = text_messages dn ''Name is required and must be a non-empty string'' @
               text_messages da ''Address is required and must be a non-empty string'' @
               coordinate_messages dla ''Latitude is required and must be a valid number''
                 ''Latitude must be between -90 and 90'' (- 90) 90 @
               coordinate_messages dlo ''Longitude is required and must be a valid number''
                 ''Longitude must be between -180 and 180'' (- 180) 180"
    by (rule validateSchoolInput_Inr)
  have 1: "''Name is required and must be a non-empty string'' \<in> set errs \<longleftrightarrow>
          \<not> (\<exists>n. dn = JString n \<and> trim n \<noteq> [])"
    unfolding e by (simp add: set_text_messages set_coordinate_messages)
  have 2: "''Address is required and must be a non-empty string'' \<in> set errs \<longleftrightarrow>
          \<not> (\<exists>a. da = JString a \<and> trim a \<noteq> [])"
    unfolding e by (simp add: set_text_messages set_coordinate_messages)
  have 3: "''Latitude is required and must be a valid number'' \<in> set errs \<longleftrightarrow>
          \<not> truthy dla \<or> parseFloat dla = Inr NaN"
    unfolding e required_iff [OF t(1), symmetric]
    by (simp add: set_text_messages set_coordinate_messages)
  have 4: "''Latitude must be between -90 and 90'' \<in> set errs \<longleftrightarrow>
          truthy dla \<and> (\<exists>c. parseFloat dla = Inr c \<and> \<not> isNaN c \<and>
                            (js_lt c (Fin (- 90)) \<or> js_gt c (Fin 90)))"
    unfolding e bounds_iff [OF t(1), symmetric]
    by (simp add: set_text_messages set_coordinate_messages)
  have 5: "''Longitude is required and must be a valid number'' \<in> set errs \<longleftrightarrow>
          \<not> truthy dlo \<or> parseFloat dlo = Inr NaN"
    unfolding e required_iff [OF t(2), symmetric]
    by (simp add: set_text_messages set_coordinate_messages)
  have 6: "''Longitude must be between -180 and 180'' \<in> set errs \<longleftrightarrow>
          truthy dlo \<and> (\<exists>c. parseFloat dlo = Inr c \<and> \<not> isNaN c \<and>
                            (js_lt c (Fin (- 180)) \<or> js_gt c (Fin 180)))"
    unfolding e bounds_iff [OF t(2), symmetric]
    by (simp add: set_text_messages set_coordinate_messages)
  have a: "addSchool node_env oc data s = (\<lparr>status = 400, payload = Errors errs\<rparr>, s)"
    using assms by (rule addSchool_invalid)
  have b: "ctl_addSchool oc data s = (\<lparr>status = 400, payload = Errors errs\<rparr>, s)"
    unfolding ctl_addSchool_eq using assms by (rule addSchool_invalid)
  from a b g 1 2 3 4 5 6 show ?thesis
    by (intro conjI exI)
qed

theorem addSchool_rejects_invalid_witness:
  "validateSchoolInput
     (JObject [(''name'', JString []), (''address'', JString ''  ''),
               (''latitude'', JNumber (Fin 0)), (''longitude'', JString ''200'')]) =
     Inr [''Name is required and must be a non-empty string'',
          ''Address is required and must be a non-empty string'',
          ''Latitude is required and must be a valid number'',
          ''Longitude must be between -180 and 180''] \<and>
   [''Name is required and must be a non-empty string'',
    ''Address is required and must be a non-empty string'',
    ''Latitude is required and must be a valid number'',
    ''Longitude must be between -180 and 180''] \<noteq> [] \<and>
   addSchool (Some ''development'') Serves
     (JObject [(''name'', JString []), (''address'', JString ''  ''),
               (''latitude'', JNumber (Fin 0)), (''longitude'', JString ''200'')]) initial_db =
     (\<lparr>status = 400,
        payload = Errors [''Name is required and must be a non-empty string'',
          ''Address is required and must be a non-empty string'',
          ''Latitude is required and must be a valid number'',
          ''Longitude must be between -180 and 180'']\<rparr>, initial_db)"
proof -
  have v: "validateSchoolInput
     (JObject [(''name'', JString []), (''address'', JString ''  ''),
               (''latitude'', JNumber (Fin 0)), (''longitude'', JString ''200'')]) =
     Inr [''Name is required and must be a non-empty string'',
          ''Address is required and must be a non-empty string'',
          ''Latitude is required and must be a valid number'',
          ''Longitude must be between -180 and 180'']"
    by (simp add: eval_simps)
  have n: "[''Name is required and must be a non-empty string'',
    ''Address is required and must be a non-empty string'',
    ''Latitude is required and must be a valid number'',
    ''Longitude must be between -180 and 180''] \<noteq> []"
    by simp
  note t = addSchool_rejects_invalid [OF v n, of "Some ''development''" Serves initial_db]
  show ?thesis
    by (intro conjI v n t [THEN conjunct1])
qed

text \<open>
  C5.  The first half holds: every row of a reachable datastore has a non-empty trimmed
  name, a non-empty trimmed address, a latitude in \<open>[-90, 90]\<close> and a longitude in
  \<open>[-180, 180]\<close> (\<open>persisted_rows_satisfy_constraints\<close> above).  The second half fails:
  the validator accepts the text \<open>"0"\<close> as a latitude, the handler stores it as the
  number 0, and the validator rejects the number 0 as missing.  After the request below
  the datastore holds a row that the validator rejects.
\<close>

theorem stored_zero_latitude_is_rejected:
  "reachable (snd (addSchool None Serves
     (JObject [(''name'', JString ''Equator School''), (''address'', JString ''1 Line Rd''),
               (''latitude'', JString ''0''), (''longitude'', JNumber (Fin 10))]) initial_db)) \<and>
   rows (snd (addSchool None Serves
     (JObject [(''name'', JString ''Equator School''), (''address'', JString ''1 Line Rd''),
               (''latitude'', JString ''0''), (''longitude'', JNumber (Fin 10))]) initial_db)) =
     [\<lparr>id' = 1, name = ''Equator School'', address = ''1 Line Rd'',
       latitude = 0, longitude = 10\<rparr>] \<and>
   validateSchoolInput (school_json
     \<lparr>id' = 1, name = ''Equator School'', address = ''1 Line Rd'',
      latitude = 0, longitude = 10\<rparr>) =
     Inr [''Latitude is required and must be a valid number'']"
proof -
  let ?d = "JObject [(''name'', JString ''Equator School''), (''address'', JString ''1 Line Rd''),
               (''latitude'', JString ''0''), (''longitude'', JNumber (Fin 10))]"
  have v: "validateSchoolInput ?d = Inr []"
    by (simp add: eval_simps)
  have p: "parseFloat (JString ''0'') = Inr (Fin 0)" "parseFloat (JNumber (Fin 10)) = Inr (Fin 10)"
    by (simp_all add: eval_simps)
  have g: "get_prop ?d ''name'' = Inr (JString ''Equator School'')"
    "get_prop ?d ''address'' = Inr (JString ''1 Line Rd'')"
    "get_prop ?d ''latitude'' = Inr (JString ''0'')"
    "get_prop ?d ''longitude'' = Inr (JNumber (Fin 10))"
    by simp_all
  have r: "rows (snd (addSchool None Serves ?d initial_db)) =
     [\<lparr>id' = 1, name = ''Equator School'', address = ''1 Line Rd'',
       latitude = 0, longitude = 10\<rparr>]"
    by (simp add: addSchool_valid_Serves [OF v g(1,2) g(3) p(1) g(4) p(2)]
          initial_db_def trim_def is_ws_def)
  have j: "validateSchoolInput (school_json
     \<lparr>id' = 1, name = ''Equator School'', address = ''1 Line Rd'',
      latitude = 0, longitude = 10\<rparr>) =
     Inr [''Latitude is required and must be a valid number'']"
    by (simp add: school_json_def eval_simps)
  have "reachable (snd (addSchool None Serves ?d initial_db))"
    by (rule reachable.add [OF reachable.start])
  then show ?thesis
    using r j by (intro conjI)
qed

text \<open>
  C6, as stated, fails for a coordinate whose conversion to a string throws.  With the
  latitude missing and the longitude the object \<open>{toString: "1"}\<close> (what the extended
  query parser of Express makes of \<open>?longitude[toString]=1\<close>),
  \<open>parseFloat(req.query.longitude)\<close> throws before the check is reached, and the \<open>catch\<close>
  block answers 500, not 400, in both entry points.
\<close>

theorem listSchools_throwing_coordinate_answers_500:
  "listSchools None Serves JUndefined (JObject [(''toString'', JString ''1'')]) initial_db =
     (\<lparr>status = 500, payload = Failure ''Internal server error'' None\<rparr>, initial_db) \<and>
   ctl_listSchools Serves JUndefined (JObject [(''toString'', JString ''1'')]) initial_db =
     (\<lparr>status = 500, payload = Failure ''Internal server error'' None\<rparr>, initial_db) \<and>
   status (fst (listSchools None Serves JUndefined (JObject [(''toString'', JString ''1'')])
     initial_db)) \<noteq> 400"
proof -
  have t: "toString_throws JUndefined \<or> toString_throws (JObject [(''toString'', JString ''1'')])"
    by simp
  have l: "listSchools None Serves JUndefined (JObject [(''toString'', JString ''1'')]) initial_db =
     (\<lparr>status = 500, payload = Failure ''Internal server error'' None\<rparr>, initial_db)"
    by (simp add: listSchools_throws [OF t])
  have c: "ctl_listSchools Serves JUndefined (JObject [(''toString'', JString ''1'')]) initial_db =
     (\<lparr>status = 500, payload = Failure ''Internal server error'' None\<rparr>, initial_db)"
    unfolding ctl_listSchools_eq by (rule l)
  have "status (fst (listSchools None Serves JUndefined (JObject [(''toString'', JString ''1'')])
     initial_db)) \<noteq> 400"
    unfolding l by simp
  with l c show ?thesis
    by (intro conjI)
qed

text \<open>
  C6, amended.  Take a query in which a coordinate is missing (\<open>undefined\<close>) or is not read
  by \<open>parseFloat\<close> as a number within its range: it has no number at the start of its text
  (\<open>NaN\<close>), it is out of range (as \<open>latitude=200\<close>), or its conversion to a string throws.
  If \<open>parseFloat\<close> throws on one of the two coordinates, the list-schools handler answers
  500 with the generic message (and the text of the error only in \<open>src/index.js\<close> under
  \<open>NODE_ENV=development\<close>); otherwise it answers 400.  In both cases the datastore is left
  as it was, call log included: no call to the pool is made, so nothing is read.
\<close>

theorem listSchools_bad_query_400_or_500:
  assumes "q_latitude = JUndefined \<or> q_longitude = JUndefined \<or>
           \<not> (\<exists>v. parseFloat q_latitude = Inr (Fin v) \<and> - 90 \<le> v \<and> v \<le> 90) \<or>
           \<not> (\<exists>v. parseFloat q_longitude = Inr (Fin v) \<and> - 180 \<le> v \<and> v \<le> 180)"
  shows "if (\<exists>e. parseFloat q_latitude = Inl e) \<or> (\<exists>e. parseFloat q_longitude = Inl e)
         then listSchools node_env oc q_latitude q_longitude s =
                (\<lparr>status = 500, payload = Failure ''Internal server error''
                    (if node_env = Some ''development''
                     then Some ''Cannot convert object to primitive value'' else None)\<rparr>, s) \<and>
              ctl_listSchools oc q_latitude q_longitude s =
                (\<lparr>status = 500, payload = Failure ''Internal server error'' None\<rparr>, s)
         else listSchools node_env oc q_latitude q_longitude s =
                (\<lparr>status = 400,
                  payload = Failure ''Invalid latitude or longitude provided'' None\<rparr>, s) \<and>
              ctl_listSchools oc q_latitude q_longitude s =
                (\<lparr>status = 400,
                  payload = Failure ''Invalid latitude or longitude provided'' None\<rparr>, s)"
proof (cases "toString_throws q_latitude \<or> toString_throws q_longitude")
  case True
  then have e: "(\<exists>e. parseFloat q_latitude = Inl e) \<or> (\<exists>e. parseFloat q_longitude = Inl e)"
    by (auto simp: parseFloat_def)
  note r = listSchools_throws [OF True]
  have "listSchools node_env oc q_latitude q_longitude s =
          (\<lparr>status = 500, payload = Failure ''Internal server error''
              (if node_env = Some ''development''
               then Some ''Cannot convert object to primitive value'' else None)\<rparr>, s) \<and>
        ctl_listSchools oc q_latitude q_longitude s =
          (\<lparr>status = 500, payload = Failure ''Internal server error'' None\<rparr>, s)"
    unfolding ctl_listSchools_eq by (simp only: r) simp
  with e show ?thesis
    by (simp only: if_True)
next
  case False
  then obtain a b where p: "parseFloat q_latitude = Inr a" "parseFloat q_longitude = Inr b"
    by (auto simp: parseFloat_def)
  then have e: "\<not> ((\<exists>e. parseFloat q_latitude = Inl e) \<or> (\<exists>e. parseFloat q_longitude = Inl e))"
    by simp
  have "a = NaN" if "q_latitude = JUndefined"
    using that p(1) by (simp add: parseFloat_def)
  moreover have "b = NaN" if "q_longitude = JUndefined"
    using that p(2) by (simp add: parseFloat_def)
  ultimately have
    "\<not> (\<exists>v. a = Fin v \<and> - 90 \<le> v \<and> v \<le> 90) \<or> \<not> (\<exists>v. b = Fin v \<and> - 180 \<le> v \<and> v \<le> 180)"
    using assms unfolding p by auto
  then have "isNaN a \<or> isNaN b \<or> js_lt a (Fin (- 90)) \<or> js_gt a (Fin 90) \<or>
         js_lt b (Fin (- 180)) \<or> js_gt b (Fin 180)"
    unfolding in_range_Fin [symmetric] by blast
  note r = listSchools_invalid [OF p this]
  have "listSchools node_env oc q_latitude q_longitude s =
          (\<lparr>status = 400,
            payload = Failure ''Invalid latitude or longitude provided'' None\<rparr>, s) \<and>
        ctl_listSchools oc q_latitude q_longitude s =
          (\<lparr>status = 400,
            payload = Failure ''Invalid latitude or longitude provided'' None\<rparr>, s)"
    unfolding ctl_listSchools_eq by (simp only: r)
  with e show ?thesis
    by (simp only: if_False)
qed

theorem listSchools_bad_query_400_or_500_witness:
  "(JString ''200'' = JUndefined \<or> JString ''10'' = JUndefined \<or>
    \<not> (\<exists>v. parseFloat (JString ''200'') = Inr (Fin v) \<and> - 90 \<le> v \<and> v \<le> 90) \<or>
    \<not> (\<exists>v. parseFloat (JString ''10'') = Inr (Fin v) \<and> - 180 \<le> v \<and> v \<le> 180)) \<and>
   listSchools (Some ''development'') Serves (JString ''200'') (JString ''10'') initial_db =
     (\<lparr>status = 400, payload = Failure ''Invalid latitude or longitude provided'' None\<rparr>,
      initial_db) \<and>
   (JUndefined = JUndefined \<or> JObject [(''toString'', JString ''1'')] = JUndefined \<or>
    \<not> (\<exists>v. parseFloat JUndefined = Inr (Fin v) \<and> - 90 \<le> v \<and> v \<le> 90) \<or>
    \<not> (\<exists>v. parseFloat (JObject [(''toString'', JString ''1'')]) = Inr (Fin v) \<and>
           - 180 \<le> v \<and> v \<le> 180)) \<and>
   listSchools (Some ''development'') Serves JUndefined (JObject [(''toString'', JString ''1'')])
       initial_db =
     (\<lparr>status = 500, payload = Failure ''Internal server error''
         (Some ''Cannot convert object to primitive value'')\<rparr>, initial_db)"
proof -
  have a: "parseFloat (JString ''200'') = Inr (Fin 200)"
    by (simp add: eval_simps)
  have b: "parseFloat (JString ''10'') = Inr (Fin 10)"
    by (simp add: eval_simps)
  have u: "parseFloat JUndefined = Inr NaN"
    by (simp add: parseFloat_def)
  have o: "parseFloat (JObject [(''toString'', JString ''1'')]) =
             Inl (TypeError ''Cannot convert object to primitive value'')"
    by (simp add: parseFloat_def)
  have h1: "JString ''200'' = JUndefined \<or> JString ''10'' = JUndefined \<or>
    \<not> (\<exists>v. parseFloat (JString ''200'') = Inr (Fin v) \<and> - 90 \<le> v \<and> v \<le> 90) \<or>
    \<not> (\<exists>v. parseFloat (JString ''10'') = Inr (Fin v) \<and> - 180 \<le> v \<and> v \<le> 180)"
    unfolding a b by simp
  have h2: "JUndefined = JUndefined \<or> JObject [(''toString'', JString ''1'')] = JUndefined \<or>
    \<not> (\<exists>v. parseFloat JUndefined = Inr (Fin v) \<and> - 90 \<le> v \<and> v \<le> 90) \<or>
    \<not> (\<exists>v. parseFloat (JObject [(''toString'', JString ''1'')]) = Inr (Fin v) \<and>
           - 180 \<le> v \<and> v \<le> 180)"
    by simp
  have t1: "listSchools (Some ''development'') Serves (JString ''200'') (JString ''10'') initial_db =
     (\<lparr>status = 400, payload = Failure ''Invalid latitude or longitude provided'' None\<rparr>,
      initial_db)"
    using listSchools_bad_query_400_or_500 [OF h1, of "Some ''development''" Serves initial_db]
    unfolding a b by simp
  have t2: "listSchools (Some ''development'') Serves JUndefined
       (JObject [(''toString'', JString ''1'')]) initial_db =
     (\<lparr>status = 500, payload = Failure ''Internal server error''
         (Some ''Cannot convert object to primitive value'')\<rparr>, initial_db)"
    using listSchools_bad_query_400_or_500 [OF h2, of "Some ''development''" Serves initial_db]
    unfolding u o by simp
  show ?thesis
    by (intro conjI h1 t1 h2 t2)
qed


text \<open>
  C8.  Every failure is answered with the generic 500 response.  A failure is an exception
  in the handler (the validator or \<open>parseFloat\<close> throws) or a datastore that does not
  serve a request that passed validation.  Every response with status 500, of either
  handler, carries the message \<open>Internal server error\<close>; \<open>src/index.js\<close> adds the text of
  the error only when \<open>NODE_ENV\<close> is \<open>development\<close>, the controller never adds it.
\<close>

theorem failures_answer_generic_500:
  "(validateSchoolInput data = Inl e \<or> validateSchoolInput data = Inr [] \<and> oc \<noteq> Serves \<longrightarrow>
      status (fst (addSchool node_env oc data s)) = 500 \<and>
      fst (ctl_addSchool oc data s) =
        \<lparr>status = 500, payload = Failure ''Internal server error'' None\<rparr>) \<and>
   (toString_throws q_latitude \<or> toString_throws q_longitude \<or>
    (\<exists>x y. parseFloat q_latitude = Inr (Fin x) \<and> parseFloat q_longitude = Inr (Fin y) \<and>
           - 90 \<le> x \<and> x \<le> 90 \<and> - 180 \<le> y \<and> y \<le> 180) \<and> oc \<noteq> Serves \<longrightarrow>
      status (fst (listSchools node_env oc q_latitude q_longitude s)) = 500 \<and>
      fst (ctl_listSchools oc q_latitude q_longitude s) =
        \<lparr>status = 500, payload = Failure ''Internal server error'' None\<rparr>) \<and>
   (status (fst (addSchool node_env oc data s)) = 500 \<longrightarrow>
      (\<exists>detail. payload (fst (addSchool node_env oc data s)) =
                  Failure ''Internal server error'' detail \<and>
                (detail \<noteq> None \<longrightarrow> node_env = Some ''development''))) \<and>
   (status (fst (listSchools node_env oc q_latitude q_longitude s)) = 500 \<longrightarrow>
      (\<exists>detail. payload (fst (listSchools node_env oc q_latitude q_longitude s)) =
                  Failure ''Internal server error'' detail \<and>
                (detail \<noteq> None \<longrightarrow> node_env = Some ''development''))) \<and>
   (status (fst (ctl_addSchool oc data s)) = 500 \<longrightarrow>
      payload (fst (ctl_addSchool oc data s)) = Failure ''Internal server error'' None) \<and>
   (status (fst (ctl_listSchools oc q_latitude q_longitude s)) = 500 \<longrightarrow>
      payload (fst (ctl_listSchools oc q_latitude q_longitude s)) =
        Failure ''Internal server error'' None)"
proof (intro conjI impI)
  assume a: "validateSchoolInput data = Inl e \<or> validateSchoolInput data = Inr [] \<and> oc \<noteq> Serves"
  then have "\<exists>m. fst (addSchool ne oc data s) =
           \<lparr>status = 500, payload = Failure ''Internal server error''
              (if ne = Some ''development'' then Some m else None)\<rparr>" for ne
    using addSchool_valid_fails [of data oc ne s] by (auto simp: addSchool_throws)
  from this [of node_env] this [of None]
  show "status (fst (addSchool node_env oc data s)) = 500"
    and "fst (ctl_addSchool oc data s) =
        \<lparr>status = 500, payload = Failure ''Internal server error'' None\<rparr>"
    unfolding ctl_addSchool_eq by auto
next
  assume a: "toString_throws q_latitude \<or> toString_throws q_longitude \<or>
    (\<exists>x y. parseFloat q_latitude = Inr (Fin x) \<and> parseFloat q_longitude = Inr (Fin y) \<and>
           - 90 \<le> x \<and> x \<le> 90 \<and> - 180 \<le> y \<and> y \<le> 180) \<and> oc \<noteq> Serves"
  have "\<exists>m. fst (listSchools ne oc q_latitude q_longitude s) =
           \<lparr>status = 500, payload = Failure ''Internal server error''
              (if ne = Some ''development'' then Some m else None)\<rparr>" for ne
  proof (cases "toString_throws q_latitude \<or> toString_throws q_longitude")
    case True
    then show ?thesis by (simp only: listSchools_throws) auto
  next
    case False
    with a obtain x y where "parseFloat q_latitude = Inr (Fin x)" "parseFloat q_longitude = Inr (Fin y)"
      "- 90 \<le> x" "x \<le> 90" "- 180 \<le> y" "y \<le> 180" "oc \<noteq> Serves"
      by blast
    from listSchools_valid_fails [OF this, of ne s] show ?thesis
      by blast
  qed
  from this [of node_env] this [of None]
  show "status (fst (listSchools node_env oc q_latitude q_longitude s)) = 500"
    and "fst (ctl_listSchools oc q_latitude q_longitude s) =
        \<lparr>status = 500, payload = Failure ''Internal server error'' None\<rparr>"
    unfolding ctl_listSchools_eq by auto
next
  assume "status (fst (addSchool node_env oc data s)) = 500"
  from addSchool_status_500 [OF this] show "\<exists>detail. payload (fst (addSchool node_env oc data s)) =
                  Failure ''Internal server error'' detail \<and>
                (detail \<noteq> None \<longrightarrow> node_env = Some ''development'')"
    by auto
next
  assume "status (fst (listSchools node_env oc q_latitude q_longitude s)) = 500"
  from listSchools_status_500 [OF this] show "\<exists>detail. payload (fst (listSchools node_env oc q_latitude q_longitude s)) =
                  Failure ''Internal server error'' detail \<and>
                (detail \<noteq> None \<longrightarrow> node_env = Some ''development'')"
    by auto
next
  assume "status (fst (ctl_addSchool oc data s)) = 500"
  then have "status (fst (addSchool None oc data s)) = 500"
    by (simp only: ctl_addSchool_eq)
  from addSchool_status_500 [OF this] show "payload (fst (ctl_addSchool oc data s)) = Failure ''Internal server error'' None"
    unfolding ctl_addSchool_eq by auto
next
  assume "status (fst (ctl_listSchools oc q_latitude q_longitude s)) = 500"
  then have "status (fst (listSchools None oc q_latitude q_longitude s)) = 500"
    by (simp only: ctl_listSchools_eq)
  from listSchools_status_500 [OF this] show "payload (fst (ctl_listSchools oc q_latitude q_longitude s)) =
        Failure ''Internal server error'' None"
    unfolding ctl_listSchools_eq by auto
qed

theorem failures_answer_generic_500_witness:
  "validateSchoolInput
     (JObject [(''name'', JString ''Hill School''), (''address'', JString ''12 High St''),
               (''latitude'', JString ''45.5''), (''longitude'', JString ''-73.5'')]) = Inr [] \<and>
   QueryFails ''ER_LOCK_DEADLOCK'' \<noteq> Serves \<and>
   parseFloat (JString ''45.5'') = Inr (Fin 45.5) \<and>
   parseFloat (JString ''-73.5'') = Inr (Fin (- 73.5)) \<and>
   fst (addSchool (Some ''production'') (QueryFails ''ER_LOCK_DEADLOCK'')
     (JObject [(''name'', JString ''Hill School''), (''address'', JString ''12 High St''),
               (''latitude'', JString ''45.5''), (''longitude'', JString ''-73.5'')]) initial_db) =
     \<lparr>status = 500, payload = Failure ''Internal server error'' None\<rparr> \<and>
   fst (listSchools (Some ''production'') (QueryFails ''ER_LOCK_DEADLOCK'')
     (JString ''45.5'') (JString ''-73.5'') initial_db) =
     \<lparr>status = 500, payload = Failure ''Internal server error'' None\<rparr> \<and>
   fst (ctl_addSchool (QueryFails ''ER_LOCK_DEADLOCK'')
     (JObject [(''name'', JString ''Hill School''), (''address'', JString ''12 High St''),
               (''latitude'', JString ''45.5''), (''longitude'', JString ''-73.5'')]) initial_db) =
     \<lparr>status = 500, payload = Failure ''Internal server error'' None\<rparr> \<and>
   fst (ctl_listSchools (QueryFails ''ER_LOCK_DEADLOCK'')
     (JString ''45.5'') (JString ''-73.5'') initial_db) =
     \<lparr>status = 500, payload = Failure ''Internal server error'' None\<rparr>"
proof -
  let ?d = "JObject [(''name'', JString ''Hill School''), (''address'', JString ''12 High St''),
               (''latitude'', JString ''45.5''), (''longitude'', JString ''-73.5'')]"
  let ?oc = "QueryFails ''ER_LOCK_DEADLOCK''"
  let ?ne = "Some ''production''"
  have v: "validateSchoolInput ?d = Inr []"
    by (simp add: eval_simps)
  have o: "?oc \<noteq> Serves"
    by simp
  have p: "parseFloat (JString ''45.5'') = Inr (Fin 45.5)"
    by (simp add: eval_simps)
  have q: "parseFloat (JString ''-73.5'') = Inr (Fin (- 73.5))"
    by (simp add: eval_simps)
  have h1: "validateSchoolInput ?d = Inl (TypeError []) \<or> validateSchoolInput ?d = Inr [] \<and> ?oc \<noteq> Serves"
    using v o by simp
  have h2: "toString_throws (JString ''45.5'') \<or> toString_throws (JString ''-73.5'') \<or>
    (\<exists>x y. parseFloat (JString ''45.5'') = Inr (Fin x) \<and>
           parseFloat (JString ''-73.5'') = Inr (Fin y) \<and>
           - 90 \<le> x \<and> x \<le> 90 \<and> - 180 \<le> y \<and> y \<le> 180) \<and> ?oc \<noteq> Serves"
  proof -
    have "- 90 \<le> (45.5::real) \<and> (45.5::real) \<le> 90 \<and>
        - 180 \<le> (- 73.5::real) \<and> (- 73.5::real) \<le> 180"
      by simp
    with p q have "\<exists>x y. parseFloat (JString ''45.5'') = Inr (Fin x) \<and>
           parseFloat (JString ''-73.5'') = Inr (Fin y) \<and>
           - 90 \<le> x \<and> x \<le> 90 \<and> - 180 \<le> y \<and> y \<le> 180"
      by blast
    with o show ?thesis by blast
  qed
  note t = failures_answer_generic_500 [of ?d "TypeError []" ?oc ?ne initial_db
      "JString ''45.5''" "JString ''-73.5''"]
  note t1 = t [THEN conjunct1, THEN mp, OF h1]
  note t2 = t [THEN conjunct2, THEN conjunct1, THEN mp, OF h2]
  note a = t1 [THEN conjunct1] and c = t1 [THEN conjunct2]
  note b = t2 [THEN conjunct1] and d = t2 [THEN conjunct2]
  have n: "?ne \<noteq> Some ''development''"
    by simp
  from t [THEN conjunct2, THEN conjunct2, THEN conjunct1, THEN mp, OF a]
  obtain detail where "payload (fst (addSchool ?ne ?oc ?d initial_db)) =
      Failure ''Internal server error'' detail" "detail \<noteq> None \<longrightarrow> ?ne = Some ''development''"
    by (elim exE conjE)
  with n have "payload (fst (addSchool ?ne ?oc ?d initial_db)) =
      Failure ''Internal server error'' None"
    by (cases detail) simp_all
  with a have a': "fst (addSchool ?ne ?oc ?d initial_db) =
      \<lparr>status = 500, payload = Failure ''Internal server error'' None\<rparr>"
    by (cases "fst (addSchool ?ne ?oc ?d initial_db)") simp
  from t [THEN conjunct2, THEN conjunct2, THEN conjunct2, THEN conjunct1, THEN mp, OF b]
  obtain detail' where "payload (fst (listSchools ?ne ?oc (JString ''45.5'') (JString ''-73.5'') initial_db)) =
      Failure ''Internal server error'' detail'" "detail' \<noteq> None \<longrightarrow> ?ne = Some ''development''"
    by (elim exE conjE)
  with n have "payload (fst (listSchools ?ne ?oc (JString ''45.5'') (JString ''-73.5'') initial_db)) =
      Failure ''Internal server error'' None"
    by (cases detail') simp_all
  with b have b': "fst (listSchools ?ne ?oc (JString ''45.5'') (JString ''-73.5'') initial_db) =
      \<lparr>status = 500, payload = Failure ''Internal server error'' None\<rparr>"
    by (cases "fst (listSchools ?ne ?oc (JString ''45.5'') (JString ''-73.5'') initial_db)") simp
  show ?thesis
    by (intro conjI v o p q a' b' c d)
qed

text \<open>
  C9.  The two entry points duplicate the pure functions, and the copies agree: on every
  input \<open>validateSchoolInput\<close> of \<open>src/index.js\<close> returns what \<open>validateSchoolInput\<close>
  of \<open>src/controllers/schoolController.js\<close> returns (the same error list, or the same
  exception), and the two copies of \<open>calculateDistance\<close> return the same number.
\<close>

theorem duplicated_functions_equal:
  "validateSchoolInput data = ctl_validateSchoolInput data \<and>
   calculateDistance lat1 lon1 lat2 lon2 = ctl_calculateDistance lat1 lon1 lat2 lon2"
  by (simp add: ctl_validateSchoolInput_eq ctl_calculateDistance_eq)

text \<open>
  C10.  Whenever \<open>validateSchoolInput\<close> (either copy) returns, its list is made of at most
  one message for the name, then at most one for the address, then at most one for the
  latitude, then at most one for the longitude, in this order; so it has at most four
  messages.  (The function returns unless the body is \<open>undefined\<close> or \<open>null\<close> or the
  conversion of a truthy coordinate to a string throws, see \<open>validateSchoolInput_fields\<close>.)
\<close>

theorem validateSchoolInput_messages_ordered:
  assumes "validateSchoolInput data = Inr errs \<or> ctl_validateSchoolInput data = Inr errs"
  shows "\<exists>e1 e2 e3 e4. errs = e1 @ e2 @ e3 @ e4 \<and>
    (e1 = [] \<or> e1 = [''Name is required and must be a non-empty string'']) \<and>
    (e2 = [] \<or> e2 = [''Address is required and must be a non-empty string'']) \<and>
    (e3 = [] \<or> e3 = [''Latitude is required and must be a valid number''] \<or>
       e3 = [''Latitude must be between -90 and 90'']) \<and>
    (e4 = [] \<or> e4 = [''Longitude is required and must be a valid number''] \<or>
       e4 = [''Longitude must be between -180 and 180'']) \<and>
    length errs \<le> 4"
proof -
  from assms have "validateSchoolInput data = Inr errs"
    by (simp add: ctl_validateSchoolInput_eq)
  then obtain dn da dla dlo where
    e: "errs = text_messages dn ''Name is required and must be a non-empty string'' @
               text_messages da ''Address is required and must be a non-empty string'' @
               coordinate_messages dla ''Latitude is required and must be a valid number''
                 ''Latitude must be between -90 and 90'' (- 90) 90 @
               coordinate_messages dlo ''Longitude is required and must be a valid number''
                 ''Longitude must be between -180 and 180'' (- 180) 180"
    by (rule validateSchoolInput_Inr)
  note c = text_messages_cases [of dn "''Name is required and must be a non-empty string''"]
    text_messages_cases [of da "''Address is required and must be a non-empty string''"]
    coordinate_messages_cases [of dla "''Latitude is required and must be a valid number''"
                 "''Latitude must be between -90 and 90''" "- 90" 90]
    coordinate_messages_cases [of dlo "''Longitude is required and must be a valid number''"
                 "''Longitude must be between -180 and 180''" "- 180" 180]
  have "length errs \<le> 4"
    unfolding e length_append
    using length_text_messages [of dn "''Name is required and must be a non-empty string''"]
      length_text_messages [of da "''Address is required and must be a non-empty string''"]
      length_coordinate_messages [of dla "''Latitude is required and must be a valid number''"
                 "''Latitude must be between -90 and 90''" "- 90" 90]
      length_coordinate_messages [of dlo "''Longitude is required and must be a valid number''"
                 "''Longitude must be between -180 and 180''" "- 180" 180]
    by linarith
  with e c show ?thesis
    by (intro exI conjI)
qed

theorem validateSchoolInput_messages_ordered_witness:
  "validateSchoolInput (JObject []) =
     Inr [''Name is required and must be a non-empty string'',
          ''Address is required and must be a non-empty string'',
          ''Latitude is required and must be a valid number'',
          ''Longitude is required and must be a valid number''] \<and>
   (\<exists>e1 e2 e3 e4.
      [''Name is required and must be a non-empty string'',
       ''Address is required and must be a non-empty string'',
       ''Latitude is required and must be a valid number'',
       ''Longitude is required and must be a valid number''] = e1 @ e2 @ e3 @ e4 \<and>
    (e1 = [] \<or> e1 = [''Name is required and must be a non-empty string'']) \<and>
    (e2 = [] \<or> e2 = [''Address is required and must be a non-empty string'']) \<and>
    (e3 = [] \<or> e3 = [''Latitude is required and must be a valid number''] \<or>
       e3 = [''Latitude must be between -90 and 90'']) \<and>
    (e4 = [] \<or> e4 = [''Longitude is required and must be a valid number''] \<or>
       e4 = [''Longitude must be between -180 and 180'']) \<and>
    length [''Name is required and must be a non-empty string'',
       ''Address is required and must be a non-empty string'',
       ''Latitude is required and must be a valid number'',
       ''Longitude is required and must be a valid number''] \<le> 4)"
proof -
  have v: "validateSchoolInput (JObject []) =
     Inr [''Name is required and must be a non-empty string'',
          ''Address is required and must be a non-empty string'',
          ''Latitude is required and must be a valid number'',
          ''Longitude is required and must be a valid number'']"
    by (simp add: validateSchoolInput_def bind_err_def or_else_def)
  show ?thesis
    by (rule conjI [OF v validateSchoolInput_messages_ordered [OF disjI1 [OF v]]])
qed

end
